theory Spec2Isabelle
  imports Complex_Main
begin

section \<open>Errors and array primitives\<close>

text \<open>
  The analysis module of keypoint-moseq works on numpy arrays of floats. Floats are
  modelled as real numbers, so rounding is outside the model. Every Python exception
  that the modelled code can raise is a value of \<open>py_error\<close>, and a function that can
  raise returns \<open>py_error + 'a\<close> with \<open>Inl\<close> for the exception.
\<close>

datatype py_error = AssertionError | ValueError | ZeroDivisionError | IndexError | KeyError

text \<open>
  \<open>a.take(i, mode='clip')\<close> of numpy: an index below 0 reads the first entry, an index
  past the end reads the last one.
\<close>

definition take_clip :: "real list \<Rightarrow> int \<Rightarrow> real" where
  "take_clip a i = a ! nat (max 0 (min i (int (length a) - 1)))"

section \<open>Group statistics: the Kruskal-Wallis permutation test\<close>

subsection \<open>Tables and array primitives\<close>

text \<open>
  A table of syllable usages is a numpy array of shape \<open>(N_m, N_s)\<close>: one row per
  session, one column per syllable. It is modelled as the list of its rows.
\<close>

type_synonym matrix = "real list list"

definition n_rows :: "matrix \<Rightarrow> nat" where
  "n_rows m = length m"

definition n_cols :: "matrix \<Rightarrow> nat" where
  "n_cols m = (case m of [] \<Rightarrow> 0 | r # _ \<Rightarrow> length r)"

definition column :: "matrix \<Rightarrow> nat \<Rightarrow> real list" where
  "column m s = map (\<lambda>r. r ! s) m"

text \<open>The Python slice \<open>a[lo:hi]\<close> for indices that are not negative.\<close>

definition slice :: "'a list \<Rightarrow> nat \<Rightarrow> nat \<Rightarrow> 'a list" where
  "slice a lo hi = take (hi - lo) (drop lo a)"

definition cumsum :: "nat list \<Rightarrow> nat list" where
  "cumsum ns = map (\<lambda>k. sum_list (take (Suc k) ns)) [0..<length ns]"

text \<open>
  \<open>np.array_split(a, indices)\<close> for a list of split points: the pieces
  \<open>a[0:i1]\<close>, \<open>a[i1:i2]\<close>, ..., \<open>a[ik:]\<close>.
\<close>

fun array_split_from :: "nat \<Rightarrow> 'a list \<Rightarrow> nat list \<Rightarrow> 'a list list" where
  "array_split_from lo a [] = [drop lo a]"
| "array_split_from lo a (i # is) = slice a lo i # array_split_from i a is"

definition array_split :: "'a list \<Rightarrow> nat list \<Rightarrow> 'a list list" where
  "array_split a indices = array_split_from 0 a indices"

text \<open>
  Pseudo-random numbers. A generator \<open>np.random.RandomState(seed)\<close> is represented by
  the sequence of uniform samples of \<open>[0, 1)\<close> that it delivers, and \<open>rnd.rand(rows, cols)\<close>
  called after \<open>off\<close> samples have been consumed fills the array row by row. The
  process-global generator behind \<open>np.random.randint\<close> is represented by the sequence
  of its raw draws; \<open>np.random.randint(n)\<close> reduces a draw to the range \<open>0..n-1\<close>.
\<close>

definition rand :: "(nat \<Rightarrow> real) \<Rightarrow> nat \<Rightarrow> nat \<Rightarrow> nat \<Rightarrow> real list list" where
  "rand stream off rows cols =
     map (\<lambda>p. map (\<lambda>k. stream (off + p * cols + k)) [0..<cols]) [0..<rows]"

text \<open>
  \<open>a.argsort()\<close>: the indices that sort the array. Equal entries keep their order
  here; numpy leaves the order of equal entries open.
\<close>

definition argsort :: "real list \<Rightarrow> nat list" where
  "argsort u = map snd (sort_key fst (zip u [0..<length u]))"

text \<open>
  \<open>scipy.stats.rankdata\<close> with the default method \<open>average\<close>: the rank of an entry
  is the number of smaller entries plus the mean position among the entries equal to it.
\<close>

definition rank_of :: "real list \<Rightarrow> real \<Rightarrow> real" where
  "rank_of a x = real (length (filter (\<lambda>y. y < x) a))
                 + (real (length (filter (\<lambda>y. y = x) a)) + 1) / 2"

definition rankdata :: "real list \<Rightarrow> real list" where
  "rankdata a = map (rank_of a) a"

text \<open>
  \<open>x.value_counts()\<close> of pandas: each distinct value with the number of its
  occurrences. Only the counts are used by the callers, so the order of the entries
  (pandas sorts them by count) is not modelled.
\<close>

definition value_counts :: "real list \<Rightarrow> (real \<times> nat) list" where
  "value_counts x = map (\<lambda>v. (v, count_list x v)) (remdups x)"

text \<open>
  \<open>scipy.stats.tiecorrect\<close>: for rank values of size \<open>n\<close> with tie groups of sizes
  \<open>t\<close>, the factor \<open>1 - sum(t^3 - t) / (n^3 - n)\<close>, and 1 for fewer than 2 values.
\<close>

definition tiecorrect :: "real list \<Rightarrow> real" where
  "tiecorrect rankvals =
     (if length rankvals < 2 then 1
      else 1 - real_of_int (sum_list (map (\<lambda>c. int c ^ 3 - int c) (map snd (value_counts rankvals))))
               / (real (length rankvals) ^ 3 - real (length rankvals)))"

text \<open>
  \<open>np.apply_along_axis(f, 0, m)\<close> for an \<open>f\<close> that returns an array as long as its
  argument: \<open>f\<close> is applied to every column, and the results are the columns of the
  result. numpy raises ValueError when the table has no column.
\<close>

definition apply_along_axis0 :: "(real list \<Rightarrow> real list) \<Rightarrow> matrix \<Rightarrow> py_error + matrix" where
  "apply_along_axis0 f m =
     (if n_cols m = 0 then Inl ValueError
      else Inr (map (\<lambda>i. map (\<lambda>s. f (column m s) ! i) [0..<n_cols m]) [0..<n_rows m]))"

text \<open>The first error of a list of results, or all the values.\<close>

fun sequence :: "(py_error + 'a) list \<Rightarrow> py_error + 'a list" where
  "sequence [] = Inr []"
| "sequence (Inl e # rs) = Inl e"
| "sequence (Inr x # rs) = (case sequence rs of Inl e \<Rightarrow> Inl e | Inr xs \<Rightarrow> Inr (x # xs))"

subsection \<open>The tie-correction helper\<close>

text \<open>
  \<^verbatim>\<open>
  def get_tie_correction(x, N_m):
      vc = x.value_counts()
      tie_sum = 0
      if (vc > 1).any():
          tie_sum += np.sum(vc[vc != 1] ** 3 - vc[vc != 1])
      return tie_sum / (12.0 * (N_m - 1))
  \<close>
  Without ties \<open>tie_sum\<close> is the Python integer 0, and for \<open>N_m = 1\<close> the division
  \<open>0 / 0.0\<close> raises ZeroDivisionError. With ties \<open>tie_sum\<close> is a numpy integer, whose
  division by \<open>0.0\<close> gives \<open>inf\<close> and raises nothing; no real number stands for that
  value, and the theorems about the helper leave \<open>N_m = 1\<close> out.
\<close>

definition get_tie_correction :: "real list \<Rightarrow> int \<Rightarrow> py_error + real" where
  "get_tie_correction x N_m =
     (let vc = map snd (value_counts x);
          ties = list_ex (\<lambda>c. 1 < c) vc;
          tie_sum = (if ties
                     then sum_list (map (\<lambda>c. int c ^ 3 - int c) (filter (\<lambda>c. c \<noteq> 1) vc))
                     else 0)
      in if \<not> ties \<and> N_m = 1 then Inl ZeroDivisionError
         else Inr (real_of_int tie_sum / (12 * (real_of_int N_m - 1))))"

text \<open>
  The sum over the groups of tied values of \<open>t^3 - t\<close>, where \<open>t\<close> is the size of the
  group: the quantity the specification of the helper is written with.
\<close>

definition tie_sum_of :: "real list \<Rightarrow> int" where
  "tie_sum_of x = (\<Sum>v\<in>set x. int (count_list x v) ^ 3 - int (count_list x v))"

subsection \<open>The reference test of scipy\<close>

text \<open>
  \<open>scipy.stats.kruskal(*samples)\<close>, with the chi-square survival function
  \<open>chi2.sf\<close> as the parameter \<open>sf\<close>. It raises ValueError for fewer than two samples
  and when all numbers are identical, and its result is \<open>(nan, nan)\<close>, modelled as
  \<open>None\<close>, when a sample is empty.
  \<^verbatim>\<open>
  num_groups = len(samples)
  if num_groups < 2:
      raise ValueError("Need at least two groups in stats.kruskal()")
  for sample in samples:
      if sample.size == 0:
          return KruskalResult(np.nan, np.nan)
  n = np.asarray(list(map(len, samples)))
  alldata = np.concatenate(samples)
  ranked = rankdata(alldata)
  ties = tiecorrect(ranked)
  if ties == 0:
      raise ValueError('All numbers are identical in kruskal')
  j = np.insert(np.cumsum(n), 0, 0)
  ssbn = 0
  for i in range(num_groups):
      ssbn += _square_of_sums(ranked[j[i]:j[i+1]]) / n[i]
  totaln = np.sum(n, dtype=float)
  h = 12.0 / (totaln * (totaln + 1)) * ssbn - 3 * (totaln + 1)
  df = num_groups - 1
  h /= ties
  return KruskalResult(h, distributions.chi2.sf(h, df))
  \<close>
\<close>

definition kruskal :: "(real \<Rightarrow> int \<Rightarrow> real) \<Rightarrow> real list list \<Rightarrow> py_error + (real \<times> real) option" where
  "kruskal sf samples =
     (if length samples < 2 then Inl ValueError
      else if list_ex (\<lambda>s. s = []) samples then Inr None
      else
        let n = map length samples;
            ranked = rankdata (concat samples);
            ties = tiecorrect ranked
        in if ties = 0 then Inl ValueError
           else
             let j = 0 # cumsum n;
                 ssbn = sum_list (map (\<lambda>i. (sum_list (slice ranked (j ! i) (j ! (i + 1))))\<^sup>2
                                            / real (n ! i)) [0..<length samples]);
                 totaln = real (sum_list n);
                 h = (12 / (totaln * (totaln + 1)) * ssbn - 3 * (totaln + 1)) / ties
             in Inr (Some (h, sf h (int (length samples) - 1))))"

subsection \<open>The manual test\<close>

text \<open>
  The draws of \<open>run_manual_KW_test\<close>: \<open>stream\<close> is the sample sequence of
  \<open>np.random.RandomState(seed=seed)\<close>, and \<open>global_p\<close> and \<open>global_s\<close> are the two raw
  draws of the process-global generator behind \<open>np.random.randint\<close>.
\<close>

record draws =
  stream :: "nat \<Rightarrow> real"
  global_p :: nat
  global_s :: nat

text \<open>\<open>np.random.randint(n)\<close>: ValueError for \<open>n = 0\<close>, else a number below \<open>n\<close>.\<close>

definition randint :: "nat \<Rightarrow> nat \<Rightarrow> py_error + nat" where
  "randint raw n = (if n = 0 then Inl ValueError else Inr (raw mod n))"

text \<open>
  The sum of squared rank sums per group, for one permutation:
  \<^verbatim>\<open>
  ssbn = np.zeros((n_perm, N_s))
  for i in range(num_groups):
      ssbn += (
          perm_ranks[:, cum_group_idx[i]: cum_group_idx[i + 1]].sum(1) ** 2
          / n_per_group[i]
      )
  \<close>
  \<open>ssbn_loop\<close> runs the loop from group \<open>i\<close> on with the accumulator \<open>acc\<close>, a row
  of \<open>ssbn\<close>; \<open>pr\<close> is \<open>perm_ranks\<close> of one permutation.
\<close>

definition group_term :: "matrix \<Rightarrow> nat list \<Rightarrow> nat list \<Rightarrow> nat \<Rightarrow> nat \<Rightarrow> real" where
  "group_term pr cum_group_idx n_per_group i s =
     (sum_list (column (slice pr (cum_group_idx ! i) (cum_group_idx ! (i + 1))) s))\<^sup>2
       / real (n_per_group ! i)"

fun ssbn_loop :: "matrix \<Rightarrow> nat list \<Rightarrow> nat list \<Rightarrow> nat \<Rightarrow> nat \<Rightarrow> real list \<Rightarrow> real list" where
  "ssbn_loop pr cum_group_idx n_per_group 0 i acc = acc"
| "ssbn_loop pr cum_group_idx n_per_group (Suc todo) i acc =
     ssbn_loop pr cum_group_idx n_per_group todo (i + 1)
       (map (\<lambda>s. acc ! s + group_term pr cum_group_idx n_per_group i s) [0..<length acc])"


text \<open>
  \<^verbatim>\<open>
  def run_manual_KW_test(df_usage, merged_usages_all, num_groups, n_per_group,
                         cum_group_idx, n_perm=10000, seed=42):
      N_m, N_s = merged_usages_all.shape
      rnd = np.random.RandomState(seed=seed)
      perm = rnd.rand(n_perm, N_m).argsort(-1)
      dof = num_groups - 1
      real_ranks = np.apply_along_axis(stats.rankdata, 0, merged_usages_all)
      X_ties = df_usage.apply(get_tie_correction, 0, N_m=N_m).values
      KW_tie_correct = np.apply_along_axis(stats.tiecorrect, 0, real_ranks)
      perm_ranks = real_ranks[perm]
      ssbn = ...
      h_all = 12.0 / (N_m * (N_m + 1)) * ssbn - 3 * (N_m + 1)
      h_all /= KW_tie_correct
      p_vals = stats.chi2.sf(h_all, df=dof)
      p_i = np.random.randint(n_perm)
      s_i = np.random.randint(N_s)
      kr = stats.kruskal(
          *np.array_split(
              merged_usages_all[perm[p_i, :], s_i], np.cumsum(n_per_group[:-1])
          )
      )
      assert (kr.statistic == h_all[p_i, s_i]) & (
          kr.pvalue == p_vals[p_i, s_i]
      ), "manual KW is incorrect"
      return h_all, real_ranks, X_ties
  \<close>
  \<open>df_usage\<close> and \<open>merged_usages_all\<close> hold the same table. The loop over the groups
  raises IndexError when \<open>cum_group_idx\<close> or \<open>n_per_group\<close> is too short for
  \<open>num_groups\<close>. A division of numpy arrays by zero raises nothing (the entry is \<open>nan\<close>
  or \<open>inf\<close>); the theorems about an entry of \<open>h_all\<close> assume that its divisor is not 0.
  A comparison with \<open>nan\<close> is false, so the assertion fails for the \<open>(nan, nan)\<close>
  result of the reference test.

  The function is modelled in three steps: \<open>kw_statistics\<close> is the computation up to
  \<open>p_vals\<close>, \<open>spot_check\<close> draws the pair \<open>(p_i, s_i)\<close> and runs the reference test
  on it, and \<open>run_manual_KW_test\<close> is the whole function with its assertion.
\<close>

definition perm_of :: "draws \<Rightarrow> nat \<Rightarrow> nat \<Rightarrow> nat list list" where
  "perm_of d n_perm N_m = map argsort (rand (stream d) 0 n_perm N_m)"

definition h_row ::
  "nat \<Rightarrow> nat \<Rightarrow> matrix \<Rightarrow> nat list \<Rightarrow> nat list \<Rightarrow> nat \<Rightarrow> real list \<Rightarrow> nat list \<Rightarrow> real list" where
  "h_row N_m N_s real_ranks cum_group_idx n_per_group num_groups KW_tie_correct pm =
     (let perm_ranks = map (\<lambda>k. real_ranks ! k) pm;
          ssbn = ssbn_loop perm_ranks cum_group_idx n_per_group num_groups 0 (replicate N_s 0)
      in map (\<lambda>s. (12 / (real N_m * (real N_m + 1)) * (ssbn ! s) - 3 * (real N_m + 1))
                     / (KW_tie_correct ! s))
           [0..<N_s])"

definition kw_statistics ::
  "draws \<Rightarrow> matrix \<Rightarrow> nat \<Rightarrow> nat list \<Rightarrow> nat list \<Rightarrow> nat
     \<Rightarrow> py_error + (matrix \<times> matrix \<times> real list)" where
  "kw_statistics d merged_usages_all num_groups n_per_group cum_group_idx n_perm =
     (let N_m = n_rows merged_usages_all;
          N_s = n_cols merged_usages_all;
          perm = perm_of d n_perm N_m
      in case apply_along_axis0 rankdata merged_usages_all of Inl e \<Rightarrow> Inl e
       | Inr real_ranks \<Rightarrow>
      (case sequence (map (\<lambda>s. get_tie_correction (column merged_usages_all s) (int N_m)) [0..<N_s]) of
         Inl e \<Rightarrow> Inl e
       | Inr X_ties \<Rightarrow>
      (let KW_tie_correct = map (\<lambda>s. tiecorrect (column real_ranks s)) [0..<N_s] in
       if length cum_group_idx < num_groups + 1 \<or> length n_per_group < num_groups
       then Inl IndexError
       else Inr (map (h_row N_m N_s real_ranks cum_group_idx n_per_group num_groups KW_tie_correct) perm,
                 real_ranks, X_ties))))"

definition spot_check ::
  "(real \<Rightarrow> int \<Rightarrow> real) \<Rightarrow> draws \<Rightarrow> matrix \<Rightarrow> nat list \<Rightarrow> nat
     \<Rightarrow> py_error + (nat \<times> nat \<times> (real \<times> real) option)" where
  "spot_check sf d merged_usages_all n_per_group n_perm =
     (let N_m = n_rows merged_usages_all;
          N_s = n_cols merged_usages_all;
          perm = perm_of d n_perm N_m
      in case randint (global_p d) n_perm of Inl e \<Rightarrow> Inl e
       | Inr p_i \<Rightarrow>
      (case randint (global_s d) N_s of Inl e \<Rightarrow> Inl e
       | Inr s_i \<Rightarrow>
      (case kruskal sf (array_split (map (\<lambda>k. merged_usages_all ! k ! s_i) (perm ! p_i))
                           (cumsum (butlast n_per_group))) of
         Inl e \<Rightarrow> Inl e
       | Inr kr \<Rightarrow> Inr (p_i, s_i, kr))))"

definition run_manual_KW_test ::
  "(real \<Rightarrow> int \<Rightarrow> real) \<Rightarrow> draws \<Rightarrow> matrix \<Rightarrow> nat \<Rightarrow> nat list \<Rightarrow> nat list \<Rightarrow> nat
     \<Rightarrow> py_error + (matrix \<times> matrix \<times> real list)" where
  "run_manual_KW_test sf d merged_usages_all num_groups n_per_group cum_group_idx n_perm =
     (case kw_statistics d merged_usages_all num_groups n_per_group cum_group_idx n_perm of
        Inl e \<Rightarrow> Inl e
      | Inr (h_all, real_ranks, X_ties) \<Rightarrow>
     (let dof = int num_groups - 1;
          p_vals = map (map (\<lambda>h. sf h dof)) h_all
      in case spot_check sf d merged_usages_all n_per_group n_perm of Inl e \<Rightarrow> Inl e
       | Inr (p_i, s_i, kr) \<Rightarrow>
      (case kr of
         None \<Rightarrow> Inl AssertionError
       | Some (statistic, pvalue) \<Rightarrow>
           if statistic = h_all ! p_i ! s_i \<and> pvalue = p_vals ! p_i ! s_i
           then Inr (h_all, real_ranks, X_ties)
           else Inl AssertionError)))"

subsection \<open>Concrete instances\<close>

text \<open>
  The survival function of the chi-square distribution with an even number \<open>df = 2 m\<close>
  of degrees of freedom, \<open>exp (- x / 2) * (\<Sum>k<m. (x / 2) ^ k / k!)\<close> for positive
  \<open>x\<close>. It stands for \<open>chi2.sf\<close> in the concrete instances, whose tests with a result
  have three groups, that is two degrees of freedom. \<open>sample_stream\<close> is the sample
  sequence of the generator in these instances.
\<close>

definition chi2_sf_even :: "real \<Rightarrow> int \<Rightarrow> real" where
  "chi2_sf_even x df =
     (if x \<le> 0 then 1 else exp (- x / 2) * (\<Sum>k<nat (df div 2). (x / 2) ^ k / fact k))"

definition sample_stream :: "nat \<Rightarrow> real" where
  "sample_stream i = real ((7 * i + 3) mod 11) / 11"

text \<open>
  The correction \<open>multipletests(pvals, alpha, method='fdr_bh')[1]\<close> of statsmodels,
  the default method of \<open>run_kruskal\<close>: the sorted p-values are divided by
  \<open>(k + 1) / n\<close>, replaced by the running minimum from the right, cut at 1 and put
  back in the order of the input. It stands for \<open>multipletests\<close> in the concrete
  instances.
\<close>

fun suffix_min :: "real list \<Rightarrow> real list" where
  "suffix_min [] = []"
| "suffix_min [x] = [x]"
| "suffix_min (x # y # ys) = (let r = suffix_min (y # ys) in min x (hd r) # r)"

definition fdr_bh :: "real \<Rightarrow> real list \<Rightarrow> real list" where
  "fdr_bh alpha pvals =
     (let n = length pvals;
          sortind = argsort pvals;
          pvals_sorted = map (\<lambda>i. pvals ! i) sortind;
          raw = map (\<lambda>k. pvals_sorted ! k / (real (k + 1) / real n)) [0..<n];
          corrected = map (\<lambda>p. if 1 < p then 1 else p) (suffix_min raw)
      in map (\<lambda>i. corrected ! length (takeWhile (\<lambda>j. j \<noteq> i) sortind)) [0..<n])"

text \<open>
  The instance of the theorems below: six sessions in three groups of two, one syllable
  whose usage has one tied pair, and one permutation.
\<close>

definition ex_d :: draws where
  "ex_d = \<lparr>stream = sample_stream, global_p = 0, global_s = 0\<rparr>"

definition ex_m :: matrix where
  "ex_m = [[1], [1], [2], [3], [4], [5]]"

text \<open>A table with a single group: two sessions of the group \<open>ctrl\<close>, two syllables.\<close>

definition one_group :: "(string \<times> real list) list" where
  "one_group = [(''ctrl'', [1, 5]), (''ctrl'', [2, 6])]"

text \<open>A table with three groups of one session each and one syllable.\<close>

definition three_groups :: "(string \<times> real list) list" where
  "three_groups = [(''a'', [1]), (''b'', [2]), (''c'', [3])]"

section \<open>Group statistics: Dunn's test and the report\<close>

subsection \<open>Dictionaries, pairs and means\<close>

text \<open>
  A Python dictionary is the list of its items in insertion order. Storing under a key
  that is present replaces the value and keeps the position; reading a missing key
  raises KeyError.
\<close>

type_synonym ('k, 'v) dict = "('k \<times> 'v) list"

fun dict_set :: "('k, 'v) dict \<Rightarrow> 'k \<Rightarrow> 'v \<Rightarrow> ('k, 'v) dict" where
  "dict_set [] k v = [(k, v)]"
| "dict_set ((k', v') # d) k v =
     (if k' = k then (k, v) # d else (k', v') # dict_set d k v)"

definition dict_get :: "('k, 'v) dict \<Rightarrow> 'k \<Rightarrow> py_error + 'v" where
  "dict_get d k = (case map_of d k of None \<Rightarrow> Inl KeyError | Some v \<Rightarrow> Inr v)"

text \<open>\<open>itertools.combinations(xs, 2)\<close>: the pairs of entries in the order of their positions.\<close>

fun combinations2 :: "'a list \<Rightarrow> ('a \<times> 'a) list" where
  "combinations2 [] = []"
| "combinations2 (x # xs) = map (Pair x) xs @ combinations2 xs"

text \<open>\<open>Series.unique()\<close> of pandas: the distinct values in the order of first appearance.\<close>

definition unique :: "'a list \<Rightarrow> 'a list" where
  "unique xs = rev (remdups (rev xs))"

text \<open>\<open>a[mask]\<close> for a boolean mask: the entries at the positions where the mask holds.\<close>

definition boolean_index :: "'a list \<Rightarrow> bool list \<Rightarrow> 'a list" where
  "boolean_index a msk = map fst (filter snd (zip a msk))"

definition mean :: "real list \<Rightarrow> real" where
  "mean xs = sum_list xs / real (length xs)"

subsection \<open>Dunn's z-statistics\<close>

text \<open>
  The body of the loop of \<open>dunns_z_test_permute_within_group_pairs\<close> for the pair
  \<open>(i_n, j_n)\<close>, with \<open>off\<close> samples of the generator \<open>rnd\<close> consumed before:
  \<^verbatim>\<open>
  A = N_m * (N_m + 1.0) / 12.0
  for (i_n, j_n) in combinations(group_names, 2):
      is_i = df_usage.group == i_n
      is_j = df_usage.group == j_n
      n_mice = is_i.sum() + is_j.sum()
      ranks_perm = real_ranks[(is_i | is_j)][rnd.rand(
          n_perm, n_mice).argsort(-1)]
      diff = np.abs(
          ranks_perm[:, : is_i.sum(), :].mean(1)
          - ranks_perm[:, is_i.sum():, :].mean(1)
      )
      B = 1.0 / vc.loc[i_n] + 1.0 / vc.loc[j_n]
      group_ranks = real_ranks[(is_i | is_j)]
      real_diff = np.abs(
          group_ranks[: is_i.sum(), :].mean(
              0) - group_ranks[is_i.sum():, :].mean(0)
      )
      pair = (i_n, j_n)
      null_zs_within_group[pair] = diff / np.sqrt((A - X_ties) * B)
      real_zs_within_group[pair] = real_diff / np.sqrt((A - X_ties) * B)
  \<close>
  \<open>group_col\<close> is the column \<open>df_usage.group\<close>. The mask must be as long as \<open>real_ranks\<close>
  and the drawn indices must be rows of the selection, else numpy raises IndexError.
  \<open>X_ties\<close> has one entry per syllable, as \<open>run_kruskal\<close> passes it; another length is
  modelled as the ValueError of a failed broadcast. The mean of an empty selection and a
  division by zero raise nothing in numpy (the entry is \<open>nan\<close> or \<open>inf\<close>); the
  theorems about an entry assume that the groups are not empty and the divisor is not 0.
\<close>

definition dunn_z :: "nat \<Rightarrow> nat \<Rightarrow> real list \<Rightarrow> real \<Rightarrow> nat \<Rightarrow> matrix \<Rightarrow> real list" where
  "dunn_z N_m N_s X_ties B n_i ranks =
     (let A = real N_m * (real N_m + 1) / 12
      in map (\<lambda>s. \<bar>mean (column (take n_i ranks) s) - mean (column (drop n_i ranks) s)\<bar>
                     / sqrt ((A - X_ties ! s) * B)) [0..<N_s])"

definition dunn_pair ::
  "'g list \<Rightarrow> ('g, nat) dict \<Rightarrow> matrix \<Rightarrow> real list \<Rightarrow> nat \<Rightarrow> (nat \<Rightarrow> real) \<Rightarrow> nat
     \<Rightarrow> nat \<Rightarrow> 'g \<Rightarrow> 'g \<Rightarrow> py_error + (real list list \<times> real list \<times> nat)" where
  "dunn_pair group_col vc real_ranks X_ties N_m rnd n_perm off i_n j_n =
     (let is_i = map (\<lambda>g. g = i_n) group_col;
          is_j = map (\<lambda>g. g = j_n) group_col;
          n_i = length (filter id is_i);
          n_mice = n_i + length (filter id is_j);
          N_s = n_cols real_ranks
      in if length group_col \<noteq> n_rows real_ranks then Inl IndexError
         else
           let group_ranks = boolean_index real_ranks (map2 (\<or>) is_i is_j);
               perm = map argsort (rand rnd off n_perm n_mice)
           in if list_ex (list_ex (\<lambda>k. length group_ranks \<le> k)) perm then Inl IndexError
              else
                case dict_get vc i_n of Inl e \<Rightarrow> Inl e
                | Inr vc_i \<Rightarrow>
               (case dict_get vc j_n of Inl e \<Rightarrow> Inl e
                | Inr vc_j \<Rightarrow>
                  let B = 1 / real vc_i + 1 / real vc_j in
                  if length X_ties \<noteq> N_s then Inl ValueError
                  else Inr (map (\<lambda>pm. dunn_z N_m N_s X_ties B n_i (map (\<lambda>k. group_ranks ! k) pm)) perm,
                            dunn_z N_m N_s X_ties B n_i group_ranks,
                            off + n_perm * n_mice)))"

fun dunn_loop ::
  "(nat \<Rightarrow> 'g \<Rightarrow> 'g \<Rightarrow> py_error + (real list list \<times> real list \<times> nat)) \<Rightarrow> nat
     \<Rightarrow> ('g \<times> 'g) list \<Rightarrow> ('g \<times> 'g, real list list) dict \<Rightarrow> ('g \<times> 'g, real list) dict
     \<Rightarrow> py_error + (('g \<times> 'g, real list list) dict \<times> ('g \<times> 'g, real list) dict)" where
  "dunn_loop body off [] null_zs real_zs = Inr (null_zs, real_zs)"
| "dunn_loop body off ((i_n, j_n) # pairs) null_zs real_zs =
     (case body off i_n j_n of Inl e \<Rightarrow> Inl e
      | Inr (null_z, real_z, off') \<Rightarrow>
          dunn_loop body off' pairs (dict_set null_zs (i_n, j_n) null_z)
            (dict_set real_zs (i_n, j_n) real_z))"

definition dunns_z_test_permute_within_group_pairs ::
  "'g list \<Rightarrow> ('g, nat) dict \<Rightarrow> matrix \<Rightarrow> real list \<Rightarrow> nat \<Rightarrow> 'g list \<Rightarrow> (nat \<Rightarrow> real) \<Rightarrow> nat
     \<Rightarrow> py_error + (('g \<times> 'g, real list list) dict \<times> ('g \<times> 'g, real list) dict)" where
  "dunns_z_test_permute_within_group_pairs group_col vc real_ranks X_ties N_m group_names rnd n_perm =
     dunn_loop (dunn_pair group_col vc real_ranks X_ties N_m rnd n_perm) 0
       (combinations2 group_names) [] []"

subsection \<open>Corrected p-values of the pairs\<close>

text \<open>
  \<^verbatim>\<open>
  def compute_pvalues_for_group_pairs(real_zs_within_group, null_zs, df_k_real,
                                      group_names, n_perm=10000, thresh=0.05,
                                      mc_method="fdr_bh"):
      p_vals_allperm = {}
      for pair in combinations(group_names, 2):
          p_vals_allperm[pair] = (
              (null_zs[pair] > real_zs_within_group[pair]).sum(0) + 1
          ) / n_perm
      df_pval = pd.DataFrame(p_vals_allperm)
      def correct_p(x): return multipletests(
          x, alpha=thresh, method=mc_method)[1]
      df_pval_corrected = df_pval.apply(
          correct_p, axis=1, result_type="broadcast")
      return df_pval_corrected, ((df_pval_corrected[df_k_real.is_sig] < thresh).sum(0))
  \<close>
  The correction \<open>multipletests(x, alpha, method)[1]\<close> of statsmodels is the parameter
  \<open>mc\<close>, applied as \<open>mc thresh x\<close>. A frame is the dictionary of its columns; the
  columns of \<open>df_pval\<close> must be of one length and a corrected row must be as long as
  the row, else pandas raises ValueError.
\<close>

fun p_vals_loop ::
  "('g \<times> 'g, real list) dict \<Rightarrow> ('g \<times> 'g, real list list) dict \<Rightarrow> nat \<Rightarrow> ('g \<times> 'g) list
     \<Rightarrow> ('g \<times> 'g, real list) dict \<Rightarrow> py_error + ('g \<times> 'g, real list) dict" where
  "p_vals_loop real_zs null_zs n_perm [] p_vals_allperm = Inr p_vals_allperm"
| "p_vals_loop real_zs null_zs n_perm (pair # pairs) p_vals_allperm =
     (case dict_get null_zs pair of Inl e \<Rightarrow> Inl e
      | Inr null_z \<Rightarrow>
     (case dict_get real_zs pair of Inl e \<Rightarrow> Inl e
      | Inr real_z \<Rightarrow>
          p_vals_loop real_zs null_zs n_perm pairs
            (dict_set p_vals_allperm pair
               (map (\<lambda>s. (real (length (filter (\<lambda>row. row ! s > real_z ! s) null_z)) + 1)
                            / real n_perm) [0..<length real_z]))))"

definition correct_rows ::
  "(real \<Rightarrow> real list \<Rightarrow> real list) \<Rightarrow> real \<Rightarrow> ('k, real list) dict \<Rightarrow> py_error + ('k, real list) dict" where
  "correct_rows mc thresh df_pval =
     (let n = (case df_pval of [] \<Rightarrow> 0 | (k, c) # _ \<Rightarrow> length c)
      in if list_ex (\<lambda>(k, c). length c \<noteq> n) df_pval then Inl ValueError
         else
           let rows = map (\<lambda>s. mc thresh (map (\<lambda>(k, c). c ! s) df_pval)) [0..<n]
           in if list_ex (\<lambda>r. length r \<noteq> length df_pval) rows then Inl ValueError
              else Inr (map (\<lambda>i. (fst (df_pval ! i), map (\<lambda>r. r ! i) rows))
                          [0..<length df_pval]))"

definition compute_pvalues_for_group_pairs ::
  "(real \<Rightarrow> real list \<Rightarrow> real list) \<Rightarrow> ('g \<times> 'g, real list) dict \<Rightarrow> ('g \<times> 'g, real list list) dict
     \<Rightarrow> bool list \<Rightarrow> 'g list \<Rightarrow> nat \<Rightarrow> real
     \<Rightarrow> py_error + (('g \<times> 'g, real list) dict \<times> ('g \<times> 'g, nat) dict)" where
  "compute_pvalues_for_group_pairs mc real_zs_within_group null_zs is_sig group_names n_perm thresh =
     (case p_vals_loop real_zs_within_group null_zs n_perm (combinations2 group_names) [] of
        Inl e \<Rightarrow> Inl e
      | Inr df_pval \<Rightarrow>
     (case correct_rows mc thresh df_pval of Inl e \<Rightarrow> Inl e
      | Inr df_pval_corrected \<Rightarrow>
          Inr (df_pval_corrected,
               map (\<lambda>(pair, c). (pair, length (filter (\<lambda>s. is_sig ! s \<and> c ! s < thresh)
                                                  [0..<length c])))
                 df_pval_corrected)))"

subsection \<open>The report\<close>

text \<open>
  The frame \<open>df_k_real\<close>: per syllable the result of the reference test (\<open>None\<close> for
  \<open>nan\<close>), the adjusted p-value and the significance flag.
\<close>

record k_real =
  kruskal_result :: "(real \<times> real) option list"
  p_adj :: "real list"
  is_sig :: "bool list"

text \<open>\<open>h > statistic\<close> of numpy, false for the statistic \<open>nan\<close>.\<close>

definition gt_statistic :: "real \<Rightarrow> (real \<times> real) option \<Rightarrow> bool" where
  "gt_statistic h kr = (case kr of None \<Rightarrow> False | Some (statistic, pvalue) \<Rightarrow> statistic < h)"

text \<open>
  The loop at the end of \<open>run_kruskal\<close>:
  \<^verbatim>\<open>
  intersect_sig_syllables = {}
  for pair in df_pair_corrected_pvalues.columns.tolist():
      intersect_sig_syllables[pair] = np.where(
          (df_pair_corrected_pvalues[pair] < thresh) & (df_k_real.is_sig)
      )[0]
  \<close>
\<close>

fun intersect_loop ::
  "('k, real list) dict \<Rightarrow> real \<Rightarrow> bool list \<Rightarrow> 'k list \<Rightarrow> ('k, nat list) dict
     \<Rightarrow> py_error + ('k, nat list) dict" where
  "intersect_loop df thresh sig [] acc = Inr acc"
| "intersect_loop df thresh sig (pair # pairs) acc =
     (case dict_get df pair of Inl e \<Rightarrow> Inl e
      | Inr c \<Rightarrow>
          intersect_loop df thresh sig pairs
            (dict_set acc pair (filter (\<lambda>s. c ! s < thresh \<and> sig ! s) [0..<length sig])))"

text \<open>Every syllable that a dictionary of syllable lists reports is flagged by \<open>sig\<close>.\<close>

definition all_sig :: "bool list \<Rightarrow> ('k, nat list) dict \<Rightarrow> bool" where
  "all_sig sig d = (\<forall>(k, v)\<in>set d. \<forall>s\<in>set v. s < length sig \<and> sig ! s)"

text \<open>
  \<^verbatim>\<open>
  def run_kruskal(stats_df, statistic='frequency', n_perm=10000, seed=42,
                  thresh=0.05, mc_method='fdr_bh'):
      rnd = np.random.RandomState(seed=seed)
      grouped_data = stats_df.pivot_table(
          index=["group", "file_name"], columns="syllable", values=statistic
          ).replace(np.nan, 0).reset_index()
      vc = grouped_data.group.value_counts().loc[grouped_data.group.unique()]
      n_per_group = vc.values
      group_names = vc.index
      cum_group_idx = np.insert(np.cumsum(n_per_group), 0, 0)
      num_groups = len(group_names)
      df_only_stats = grouped_data.drop(["group", "file_name"], axis=1)
      syllable_data = grouped_data.drop(["group", "file_name"], axis=1).values
      N_m, N_s = syllable_data.shape
      h_all, real_ranks, X_ties = run_manual_KW_test(...)
      df_k_real = pd.DataFrame(
          [stats.kruskal(
               *np.array_split(syllable_data[:, s_i], np.cumsum(n_per_group[:-1])))
           for s_i in range(N_s)])
      df_k_real["p_adj"] = multipletests(
          ((h_all > df_k_real.statistic.values).sum(0) + 1) / n_perm,
          alpha=thresh, method=mc_method)[1]
      df_k_real["is_sig"] = df_k_real["p_adj"] <= thresh
      (null_zs_within_group, real_zs_within_group,
      ) = dunns_z_test_permute_within_group_pairs(
          grouped_data, vc, real_ranks, X_ties, N_m, group_names, rnd, n_perm)
      df_pair_corrected_pvalues, _ = compute_pvalues_for_group_pairs(
          real_zs_within_group, null_zs_within_group, df_k_real, group_names,
          n_perm, thresh, mc_method)
      df_z = pd.DataFrame(real_zs_within_group)
      df_z.index = df_z.index.set_names("syllable")
      dunn_results_df = df_z.reset_index().melt(id_vars="syllable")
      intersect_sig_syllables = {}
      for pair in df_pair_corrected_pvalues.columns.tolist(): ...
      return df_k_real, dunn_results_df, intersect_sig_syllables
  \<close>
  The model starts from \<open>grouped_data\<close>, the pivoted table: one row per session with
  its group and its usage of each syllable, sorted by group as \<open>pivot_table\<close> leaves
  it. The generator \<open>rnd\<close> of \<open>run_kruskal\<close> and the one inside \<open>run_manual_KW_test\<close>
  are both made from \<open>seed\<close>, so both deliver the sample sequence \<open>stream d\<close> from its
  start. Assigning a column \<open>p_adj\<close> of another length than the frame raises
  ValueError.

  The function is modelled in three steps after the constants: \<open>run_manual_KW_test\<close>,
  then \<open>omnibus_table\<close>, which builds \<open>df_k_real\<close> with its columns \<open>p_adj\<close> and
  \<open>is_sig\<close>, and \<open>pair_report\<close>, which is the rest from Dunn's test on.
\<close>

definition omnibus_table ::
  "(real \<Rightarrow> int \<Rightarrow> real) \<Rightarrow> (real \<Rightarrow> real list \<Rightarrow> real list) \<Rightarrow> matrix \<Rightarrow> nat list
     \<Rightarrow> matrix \<Rightarrow> nat \<Rightarrow> real \<Rightarrow> py_error + k_real" where
  "omnibus_table sf mc syllable_data n_per_group h_all n_perm thresh =
     (let N_s = n_cols syllable_data
      in case sequence (map (\<lambda>s_i. kruskal sf (array_split (column syllable_data s_i)
                                                  (cumsum (butlast n_per_group)))) [0..<N_s]) of
           Inl e \<Rightarrow> Inl e
         | Inr kr \<Rightarrow>
            let padj = mc thresh
                  (map (\<lambda>s. (real (length (filter (\<lambda>row. gt_statistic (row ! s) (kr ! s)) h_all)) + 1)
                               / real n_perm) [0..<N_s])
            in if length padj \<noteq> N_s then Inl ValueError
               else Inr \<lparr>kruskal_result = kr, p_adj = padj,
                          is_sig = map (\<lambda>p. p \<le> thresh) padj\<rparr>)"

definition pair_report ::
  "(real \<Rightarrow> real list \<Rightarrow> real list) \<Rightarrow> 'g list \<Rightarrow> ('g, nat) dict \<Rightarrow> matrix \<Rightarrow> real list \<Rightarrow> nat
     \<Rightarrow> 'g list \<Rightarrow> (nat \<Rightarrow> real) \<Rightarrow> nat \<Rightarrow> real \<Rightarrow> bool list
     \<Rightarrow> py_error + ((nat \<times> ('g \<times> 'g) \<times> real) list \<times> ('g \<times> 'g, nat list) dict)" where
  "pair_report mc group_col vc real_ranks X_ties N_m group_names rnd n_perm thresh sig =
     (case dunns_z_test_permute_within_group_pairs group_col vc real_ranks X_ties N_m
             group_names rnd n_perm of
        Inl e \<Rightarrow> Inl e
      | Inr (null_zs_within_group, real_zs_within_group) \<Rightarrow>
     (case compute_pvalues_for_group_pairs mc real_zs_within_group null_zs_within_group sig
             group_names n_perm thresh of
        Inl e \<Rightarrow> Inl e
      | Inr (df_pair_corrected_pvalues, counts) \<Rightarrow>
     (case intersect_loop df_pair_corrected_pvalues thresh sig
             (map fst df_pair_corrected_pvalues) [] of
        Inl e \<Rightarrow> Inl e
      | Inr intersect_sig_syllables \<Rightarrow>
          Inr (concat (map (\<lambda>(pair, z). map (\<lambda>s. (s, pair, z ! s)) [0..<length z])
                         real_zs_within_group),
               intersect_sig_syllables))))"

definition run_kruskal ::
  "(real \<Rightarrow> int \<Rightarrow> real) \<Rightarrow> (real \<Rightarrow> real list \<Rightarrow> real list) \<Rightarrow> draws \<Rightarrow> ('g \<times> real list) list
     \<Rightarrow> nat \<Rightarrow> real
     \<Rightarrow> py_error + (k_real \<times> (nat \<times> ('g \<times> 'g) \<times> real) list \<times> ('g \<times> 'g, nat list) dict)" where
  "run_kruskal sf mc d grouped_data n_perm thresh =
     (let group_col = map fst grouped_data;
          syllable_data = map snd grouped_data;
          group_names = unique group_col;
          n_per_group = map (count_list group_col) group_names;
          vc = zip group_names n_per_group;
          cum_group_idx = 0 # cumsum n_per_group;
          num_groups = length group_names;
          N_m = n_rows syllable_data
      in case run_manual_KW_test sf d syllable_data num_groups n_per_group cum_group_idx n_perm of
           Inl e \<Rightarrow> Inl e
         | Inr (h_all, real_ranks, X_ties) \<Rightarrow>
        (case omnibus_table sf mc syllable_data n_per_group h_all n_perm thresh of
           Inl e \<Rightarrow> Inl e
         | Inr df_k_real \<Rightarrow>
        (case pair_report mc group_col vc real_ranks X_ties N_m group_names (stream d) n_perm
                thresh (is_sig df_k_real) of
           Inl e \<Rightarrow> Inl e
         | Inr (dunn_results_df, intersect_sig_syllables) \<Rightarrow>
             Inr (df_k_real, dunn_results_df, intersect_sig_syllables))))"

section \<open>Changepoint detection\<close>

subsection \<open>Local maxima of the change score\<close>

text \<open>
  \<open>scipy.signal.argrelextrema(score, np.greater, order=1)\<close> with its default
  \<open>mode='clip'\<close>: the indices whose entry is strictly greater than both the entry one
  step to the right and the entry one step to the left, both read with clipping.
\<close>

definition argrelextrema_greater :: "real list \<Rightarrow> nat list" where
  "argrelextrema_greater score =
     filter (\<lambda>i. take_clip score (int i) > take_clip score (int i + 1)
                \<and> take_clip score (int i) > take_clip score (int i - 1))
       [0..<length score]"

text \<open>
  The local function of \<open>changepoint_analysis\<close>:
  \<^verbatim>\<open>
  def get_changepoints(score, pvals, alpha):
      pts = argrelextrema(score, np.greater, order=1)[0]
      return pts[pvals[pts] < alpha]
  \<close>
  \<open>pvals[pts]\<close> raises IndexError when an index is past the end of \<open>pvals\<close>.
\<close>

definition get_changepoints :: "real list \<Rightarrow> real list \<Rightarrow> real \<Rightarrow> py_error + nat list" where
  "get_changepoints score pvals alpha =
     (let pts = argrelextrema_greater score in
      if list_ex (\<lambda>i. length pvals \<le> i) pts then Inl IndexError
      else Inr (filter (\<lambda>i. pvals ! i < alpha) pts))"

subsection \<open>Empirical p-values of the threshold crossings\<close>

text \<open>
  \<open>a.searchsorted(v)\<close> of numpy on a sorted array, with the default \<open>side='left'\<close>:
  the number of leading entries strictly below \<open>v\<close>.
\<close>

definition searchsorted :: "real list \<Rightarrow> real \<Rightarrow> nat" where
  "searchsorted a v = length (takeWhile (\<lambda>x. x < v) a)"

text \<open>
  Lines 1571-1572 of \<open>changepoint_analysis\<close>:
  \<^verbatim>\<open>
  ps_combined = 1 - (np.sort(crossings_shuff).searchsorted(crossings)-1)/len(crossings)
  \<close>
  \<open>crossings\<close> holds the crossing counts of the valid frames of all sessions, and
  \<open>crossings_shuff\<close> the jittered counts of the cyclically permuted indicator, selected
  by the same mask.
\<close>

definition ps_combined :: "real list \<Rightarrow> nat list \<Rightarrow> real list" where
  "ps_combined crossings_shuff crossings =
     map (\<lambda>c. 1 - (real (searchsorted (sort crossings_shuff) (real c)) - 1)
                     / real (length crossings)) crossings"

subsection \<open>The threshold scan\<close>

text \<open>
  The second half of \<open>changepoint_analysis\<close>, from the thresholds on:
  \<^verbatim>\<open>
  thresholds = np.linspace(
      np.percentile(dy_zscored, 1),
      np.percentile(dy_zscored, 99),
      num_thresholds)
  all_changescores, all_changepoints = [], []
  for threshold in tqdm(thresholds, ...):
      crossings = (dy_zscored > threshold).sum(2)[mask[:, :, 0]]
      crossings_shuff = permute_cyclic(
          dy_zscored > threshold, mask, axis=1).sum(2)[mask[:, :, 0]]
      crossings_shuff = crossings_shuff + \
          np.random.uniform(-.1, .1, crossings_shuff.shape)
      ps_combined = 1 - \
          (np.sort(crossings_shuff).searchsorted(crossings)-1)/len(crossings)
      ps_combined = fdrcorrection(ps_combined, alpha=alpha)[1]
      pvals = np.zeros(mask[:, :, 0].shape)
      pvals[mask[:, :, 0]] = ps_combined
      pvals = unbatch(pvals, labels)
      changescores = {
          k: gaussian_filter1d(-np.log10(ps), gaussian_ksize) for k, ps in pvals.items()}
      changepoints = {k: get_changepoints(
          changescores[k], ps, alpha) for k, ps in pvals.items()}
      all_changescores.append(changescores)
      all_changepoints.append(changepoints)
  num_changepoints = [sum(map(len, d.values())) for d in all_changepoints]
  changescores = all_changescores[np.argmax(num_changepoints)]
  changepoints = all_changepoints[np.argmax(num_changepoints)]
  threshold = thresholds[np.argmax(num_changepoints)]
  \<close>
  The model starts from \<open>dy_zscored\<close>, an array of shape (sessions, frames, features),
  from \<open>msk\<close>, which is \<open>mask[:, :, 0]\<close>, and from \<open>labels\<close>; the alignment and the
  derivative that produce them are outside the sources. The functions of other
  packages and the helper \<open>permute_cyclic\<close> of \<open>keypoint_moseq.util\<close>, which is not
  among the sources, are parameters:
  \<^item> \<open>pct\<close> is \<open>np.percentile\<close>;
  \<^item> \<open>pc t\<close> is \<open>permute_cyclic\<close> as it answers in iteration number \<open>t\<close> of the loop;
  \<^item> \<open>gf\<close> is \<open>gaussian_filter1d\<close> of scipy;
  \<^item> \<open>ub\<close> is \<open>unbatch\<close> of jax_moseq; it returns a dictionary, the list of its items.

  \<open>changepoint_analysis\<close> has no seed and no generator among its parameters:
  \<open>np.random.uniform\<close> draws from the process-global generator of numpy. That generator
  is represented by the sequence \<open>u\<close> of the uniform samples of \<open>[0, 1)\<close> that it delivers
  to \<open>np.random.uniform\<close> and by the number \<open>off\<close> of samples delivered before; the call
  returns the number of samples delivered when it ends.
\<close>

text \<open>
  \<open>np.linspace(start, stop, num)\<close>: ValueError for a negative \<open>num\<close>, else \<open>num\<close>
  evenly spaced numbers from \<open>start\<close> to \<open>stop\<close>, which is \<open>[start]\<close> for \<open>num = 1\<close>.
\<close>

definition linspace :: "real \<Rightarrow> real \<Rightarrow> int \<Rightarrow> py_error + real list" where
  "linspace start stop num =
     (if num < 0 then Inl ValueError
      else Inr (map (\<lambda>i. if num = 1 then start
                           else start + real i * ((stop - start) / real_of_int (num - 1)))
                  [0..<nat num]))"

text \<open>\<open>dy_zscored > threshold\<close> and \<open>.sum(2)\<close>, the number of features that cross.\<close>

definition exceeds :: "real list list list \<Rightarrow> real \<Rightarrow> bool list list list" where
  "exceeds dy threshold = map (map (map (\<lambda>x. threshold < x))) dy"

definition count_crossings :: "bool list list list \<Rightarrow> nat list list" where
  "count_crossings ind = map (map (\<lambda>f. length (filter id f))) ind"

text \<open>
  \<open>a[msk]\<close> for a two-dimensional array and a mask of its shape: the entries at the
  valid positions, row by row. numpy raises IndexError when the shapes differ.
\<close>

definition select_valid :: "'a list list \<Rightarrow> bool list list \<Rightarrow> py_error + 'a list" where
  "select_valid a msk =
     (if map length a \<noteq> map length msk then Inl IndexError
      else Inr (concat (map (\<lambda>(r, m). boolean_index r m) (zip a msk))))"

text \<open>
  \<open>pvals = np.zeros(msk.shape); pvals[msk] = ps\<close>: the values go to the valid
  positions, row by row. numpy raises ValueError when their number is not the number
  of valid positions.
\<close>

definition n_valid :: "bool list list \<Rightarrow> nat" where
  "n_valid msk = length (filter id (concat msk))"

definition put_valid :: "bool list list \<Rightarrow> real list \<Rightarrow> py_error + real list list" where
  "put_valid msk ps =
     (if length ps \<noteq> n_valid msk then Inl ValueError
      else Inr (map (\<lambda>b. map (\<lambda>t. if msk ! b ! t
                                    then ps ! length (filter id (concat (take b msk) @ take t (msk ! b)))
                                    else 0)
                          [0..<length (msk ! b)])
                  [0..<length msk]))"

text \<open>\<open>np.random.uniform(low, high, n)\<close> after \<open>off\<close> samples of the generator.\<close>

definition uniform :: "real \<Rightarrow> real \<Rightarrow> (nat \<Rightarrow> real) \<Rightarrow> nat \<Rightarrow> nat \<Rightarrow> real list" where
  "uniform low high u off n = map (\<lambda>i. low + (high - low) * u (off + i)) [0..<n]"

text \<open>
  A candidate is the pair of the dictionaries \<open>changescores\<close> and \<open>changepoints\<close> of one
  threshold. \<open>scan_threshold\<close> is the body of the loop in iteration \<open>t\<close>; with the
  candidate it returns the number of samples delivered so far. \<open>fdrcorrection\<close> of
  statsmodels with its default method is the correction \<open>fdr_bh\<close>.
\<close>

type_synonym candidate = "(string \<times> real list) list \<times> (string \<times> nat list) list"

definition scan_threshold ::
  "(nat \<Rightarrow> bool list list list \<Rightarrow> bool list list \<Rightarrow> bool list list list)
     \<Rightarrow> (real list \<Rightarrow> real \<Rightarrow> real list) \<Rightarrow> (real list list \<Rightarrow> 'l \<Rightarrow> (string \<times> real list) list)
     \<Rightarrow> 'l \<Rightarrow> real list list list \<Rightarrow> bool list list \<Rightarrow> real \<Rightarrow> real \<Rightarrow> (nat \<Rightarrow> real)
     \<Rightarrow> nat \<Rightarrow> nat \<Rightarrow> real \<Rightarrow> py_error + (candidate \<times> nat)" where
  "scan_threshold pc gf ub labels dy_zscored msk alpha gaussian_ksize u t off threshold =
     (case select_valid (count_crossings (exceeds dy_zscored threshold)) msk of
        Inl e \<Rightarrow> Inl e
      | Inr crossings \<Rightarrow>
     (case select_valid (count_crossings (pc t (exceeds dy_zscored threshold) msk)) msk of
        Inl e \<Rightarrow> Inl e
      | Inr shuff \<Rightarrow>
     (let crossings_shuff = map (\<lambda>(c, j). real c + j)
                              (zip shuff (uniform (- (1 / 10)) (1 / 10) u off (length shuff)));
          ps = fdr_bh alpha (ps_combined crossings_shuff crossings)
      in case put_valid msk ps of
           Inl e \<Rightarrow> Inl e
         | Inr pvals \<Rightarrow>
        (let items = ub pvals labels;
             changescores = map (\<lambda>(k, ps). (k, gf (map (\<lambda>p. - log 10 p) ps) gaussian_ksize)) items
         in case sequence (map (\<lambda>(k, ps). get_changepoints
                                   (gf (map (\<lambda>p. - log 10 p) ps) gaussian_ksize) ps alpha) items) of
              Inl e \<Rightarrow> Inl e
            | Inr pts \<Rightarrow> Inr ((changescores, zip (map fst items) pts), off + length shuff)))))"

fun scan_loop ::
  "(nat \<Rightarrow> nat \<Rightarrow> real \<Rightarrow> py_error + (candidate \<times> nat)) \<Rightarrow> nat \<Rightarrow> nat \<Rightarrow> real list
     \<Rightarrow> py_error + (candidate list \<times> nat)" where
  "scan_loop body t off [] = Inr ([], off)"
| "scan_loop body t off (threshold # thresholds) =
     (case body t off threshold of
        Inl e \<Rightarrow> Inl e
      | Inr (c, off') \<Rightarrow>
         (case scan_loop body (t + 1) off' thresholds of
            Inl e \<Rightarrow> Inl e
          | Inr (cs, off'') \<Rightarrow> Inr (c # cs, off'')))"

text \<open>
  \<open>np.argmax\<close> of a list: ValueError for the empty list, else the first index of the
  greatest entry.
\<close>

definition argmax :: "nat list \<Rightarrow> py_error + nat" where
  "argmax xs =
     (if xs = [] then Inl ValueError
      else Inr (length (takeWhile (\<lambda>x. x \<noteq> Max (set xs)) xs)))"

text \<open>\<open>sum(map(len, d.values()))\<close>, the number of changepoints of a candidate.\<close>

definition num_changepoints_of :: "candidate \<Rightarrow> nat" where
  "num_changepoints_of c = sum_list (map (\<lambda>(k, pts). length pts) (snd c))"

text \<open>
  The result is \<open>(changepoints, changescores, threshold)\<close> and the number of samples
  delivered; \<open>coordinates_ego\<close> and \<open>derivatives\<close>, which do not depend on the scan, are
  left out.
\<close>

definition changepoint_analysis ::
  "(real list list list \<Rightarrow> real \<Rightarrow> real)
     \<Rightarrow> (nat \<Rightarrow> bool list list list \<Rightarrow> bool list list \<Rightarrow> bool list list list)
     \<Rightarrow> (real list \<Rightarrow> real \<Rightarrow> real list) \<Rightarrow> (real list list \<Rightarrow> 'l \<Rightarrow> (string \<times> real list) list)
     \<Rightarrow> 'l \<Rightarrow> real list list list \<Rightarrow> bool list list \<Rightarrow> real \<Rightarrow> real \<Rightarrow> int \<Rightarrow> (nat \<Rightarrow> real) \<Rightarrow> nat
     \<Rightarrow> py_error + (((string \<times> nat list) list \<times> (string \<times> real list) list \<times> real) \<times> nat)" where
  "changepoint_analysis pct pc gf ub labels dy_zscored msk alpha gaussian_ksize num_thresholds u off =
     (case linspace (pct dy_zscored 1) (pct dy_zscored 99) num_thresholds of
        Inl e \<Rightarrow> Inl e
      | Inr thresholds \<Rightarrow>
     (case scan_loop (scan_threshold pc gf ub labels dy_zscored msk alpha gaussian_ksize u)
             0 off thresholds of
        Inl e \<Rightarrow> Inl e
      | Inr (candidates, off') \<Rightarrow>
     (case argmax (map num_changepoints_of candidates) of
        Inl e \<Rightarrow> Inl e
      | Inr i \<Rightarrow> Inr ((snd (candidates ! i), fst (candidates ! i), thresholds ! i), off'))))"

subsection \<open>A still session\<close>

text \<open>
  The library functions of the instance below. \<open>percentile\<close> is \<open>np.percentile\<close> with
  its default linear interpolation, for an array that is not empty.
  \<open>gaussian_filter1d\<close> is the filter of scipy for a positive \<open>sigma\<close>: the kernel
  \<open>exp (- k^2 / (2 sigma^2))\<close> for \<open>k\<close> from \<open>-lw\<close> to \<open>lw\<close> with \<open>lw = int(4 sigma + 0.5)\<close>,
  normalised, and the input continued by reflection (\<open>d c b a | a b c d | d c b a\<close>).
  \<open>unbatch\<close> is the function of jax_moseq for labels \<open>(key, start, end)\<close> that give
  every session one row which starts at frame 0.
\<close>

definition percentile :: "real list list list \<Rightarrow> real \<Rightarrow> real" where
  "percentile arr q =
     (let a = sort (concat (concat arr));
          h = (real (length a) - 1) * q / 100;
          lo = nat \<lfloor>h\<rfloor>;
          hi = nat \<lceil>h\<rceil>
      in a ! lo + (h - real lo) * (a ! hi - a ! lo))"

definition reflect :: "nat \<Rightarrow> int \<Rightarrow> nat" where
  "reflect n i = (let m = i mod (2 * int n) in nat (if m < int n then m else 2 * int n - 1 - m))"

definition gaussian_kernel1d :: "real \<Rightarrow> nat \<Rightarrow> real list" where
  "gaussian_kernel1d sigma lw =
     (let phi = map (\<lambda>k. exp (- (1 / 2) / sigma\<^sup>2 * (real_of_int k)\<^sup>2)) [- int lw..int lw]
      in map (\<lambda>p. p / sum_list phi) phi)"

definition gaussian_filter1d :: "real list \<Rightarrow> real \<Rightarrow> real list" where
  "gaussian_filter1d input sigma =
     (let lw = nat \<lfloor>4 * sigma + 1 / 2\<rfloor>;
          w = gaussian_kernel1d sigma lw;
          n = length input
      in map (\<lambda>i. \<Sum>j\<leftarrow>[0..<2 * lw + 1]. w ! j * input ! reflect n (int i + int j - int lw))
           [0..<n])"

definition unbatch :: "real list list \<Rightarrow> (string \<times> nat \<times> nat) list \<Rightarrow> (string \<times> real list) list" where
  "unbatch data labels = map (\<lambda>((key, start, end), d). (key, take (end - start) d)) (zip labels data)"

text \<open>
  The instance: one session \<open>s\<close> of two valid frames with one feature that does not
  move, so that its z-scored derivative is 0 in both frames. No feature crosses a
  threshold, and a cyclic permutation of the frames of the session leaves the crossing
  indicator as it is: \<open>permute_cyclic\<close> returns its argument. \<open>global_stream\<close> is the
  sample sequence of the process-global generator.
\<close>

definition still_dy :: "real list list list" where
  "still_dy = [[[0], [0]]]"

definition still_msk :: "bool list list" where
  "still_msk = [[True, True]]"

definition still_labels :: "(string \<times> nat \<times> nat) list" where
  "still_labels = [(''s'', 0, 2)]"

definition still_pc :: "nat \<Rightarrow> bool list list list \<Rightarrow> bool list list \<Rightarrow> bool list list list" where
  "still_pc t arr msk = arr"

definition global_stream :: "nat \<Rightarrow> real" where
  "global_stream i = real ((5 * i + 1) mod 11) / 11"

section \<open>Properties of the group statistics\<close>

subsection \<open>The tie-correction helper\<close>

lemma tie_sum_filtered:
  "sum_list (map (\<lambda>c. int c ^ 3 - int c) (filter (\<lambda>c. c \<noteq> 1) (map snd (value_counts x))))
   = tie_sum_of x"
proof -
  have "sum_list (map (\<lambda>c. int c ^ 3 - int c) (filter (\<lambda>c. c \<noteq> 1) (map snd (value_counts x))))
      = sum_list (map (\<lambda>c. if c \<noteq> 1 then int c ^ 3 - int c else 0) (map snd (value_counts x)))"
    by (rule sum_list_map_filter')
  also have "\<dots> = sum_list (map (\<lambda>c. int c ^ 3 - int c) (map snd (value_counts x)))"
    by (rule arg_cong [where f = sum_list]) (rule map_cong, auto)
  also have "\<dots> = sum_list (map (\<lambda>v. int (count_list x v) ^ 3 - int (count_list x v)) (remdups x))"
    by (simp add: value_counts_def comp_def)
  also have "\<dots> = tie_sum_of x"
    unfolding tie_sum_of_def by (simp add: sum_list_distinct_conv_sum_set)
  finally show ?thesis .
qed


lemma tie_sum_no_ties:
  assumes "\<not> list_ex (\<lambda>c. 1 < c) (map snd (value_counts x))"
  shows "tie_sum_of x = 0"
proof -
  have "int (count_list x v) ^ 3 - int (count_list x v) = 0" if "v \<in> set x" for v
  proof -
    from that have "count_list x v \<noteq> 0" by (simp add: count_list_0_iff)
    moreover from assms that have "\<not> 1 < count_list x v"
      by (auto simp: value_counts_def list_ex_iff)
    ultimately have "count_list x v = 1" by arith
    then show ?thesis by simp
  qed
  then have "\<forall>v\<in>set x. int (count_list x v) ^ 3 - int (count_list x v) = 0" by blast
  then show ?thesis unfolding tie_sum_of_def by (rule sum.neutral)
qed

lemma get_tie_correction_eq:
  assumes "N_m \<noteq> 1"
  shows "get_tie_correction x N_m = Inr (real_of_int (tie_sum_of x) / (12 * (real_of_int N_m - 1)))"
proof (cases "list_ex (\<lambda>c. 1 < c) (map snd (value_counts x))")
  case True
  with assms show ?thesis
    unfolding get_tie_correction_def Let_def by (simp only: tie_sum_filtered if_True simp_thms if_False)
next
  case False
  with assms tie_sum_no_ties [OF False] show ?thesis
    unfolding get_tie_correction_def Let_def by simp
qed

lemma count_list_distinct: "distinct x \<Longrightarrow> v \<in> set x \<Longrightarrow> count_list x v = 1"
  by (induction x) auto

lemma tie_sum_distinct: "distinct x \<Longrightarrow> tie_sum_of x = 0"
  unfolding tie_sum_of_def by (simp add: count_list_distinct)

lemma tie_sum_one_pair:
  assumes "v \<in> set x" "count_list x v = 2" "\<forall>w\<in>set x. w \<noteq> v \<longrightarrow> count_list x w = 1"
  shows "tie_sum_of x = 6"
proof -
  have "tie_sum_of x = (\<Sum>w\<in>set x. if w = v then 6 else 0)"
    unfolding tie_sum_of_def using assms by (intro sum.cong) auto
  also have "\<dots> = 6" using assms(1) by simp
  finally show ?thesis .
qed

text \<open>
  C3 (amended). For every vector \<open>x\<close> of syllable values and every session count
  \<open>N_m\<close> other than 1, \<open>get_tie_correction\<close> returns the sum over the groups of tied
  values of \<open>t^3 - t\<close>, divided by \<open>12 * (N_m - 1)\<close>; it returns 0 when all values are
  distinct, and \<open>(2^3 - 2) / (12 * 9)\<close> for a vector of 10 values with exactly one
  tied pair.
\<close>

theorem get_tie_correction_formula:
  assumes "N_m \<noteq> 1"
  shows "get_tie_correction x N_m
           = Inr (real_of_int (tie_sum_of x) / (12 * (real_of_int N_m - 1)))
         \<and> (distinct x \<longrightarrow> get_tie_correction x N_m = Inr 0)
         \<and> (N_m = 10 \<and> length x = 10 \<and> v \<in> set x \<and> count_list x v = 2
              \<and> (\<forall>w\<in>set x. w \<noteq> v \<longrightarrow> count_list x w = 1)
            \<longrightarrow> get_tie_correction x N_m = Inr ((2 ^ 3 - 2) / (12 * 9)))"
proof (intro conjI impI)
  show "get_tie_correction x N_m = Inr (real_of_int (tie_sum_of x) / (12 * (real_of_int N_m - 1)))"
    by (rule get_tie_correction_eq [OF assms])
next
  assume "distinct x"
  then show "get_tie_correction x N_m = Inr 0"
    by (simp add: get_tie_correction_eq [OF assms] tie_sum_distinct)
next
  assume a: "N_m = 10 \<and> length x = 10 \<and> v \<in> set x \<and> count_list x v = 2
              \<and> (\<forall>w\<in>set x. w \<noteq> v \<longrightarrow> count_list x w = 1)"
  then have t: "tie_sum_of x = 6" by (intro tie_sum_one_pair [of v]) auto
  from a have n: "N_m = 10" by simp
  have "get_tie_correction x N_m = Inr (real_of_int (tie_sum_of x) / (12 * (real_of_int N_m - 1)))"
    by (rule get_tie_correction_eq [OF assms])
  then show "get_tie_correction x N_m = Inr ((2 ^ 3 - 2) / (12 * 9))"
    unfolding t n by simp
qed

theorem get_tie_correction_formula_witness:
  "(10::int) \<noteq> 1
   \<and> get_tie_correction [1, 2, 3, 4, 5, 6, 7, 8, 9, 9] 10 = Inr ((2 ^ 3 - 2) / (12 * 9))
   \<and> distinct [3, 1, 2::real] \<and> get_tie_correction [3, 1, 2] 3 = Inr 0"
proof -
  have n: "(10::int) \<noteq> 1" by simp
  have p: "(10::int) = 10 \<and> length [1, 2, 3, 4, 5, 6, 7, 8, 9, 9::real] = 10
           \<and> 9 \<in> set [1, 2, 3, 4, 5, 6, 7, 8, 9, 9::real]
           \<and> count_list [1, 2, 3, 4, 5, 6, 7, 8, 9, 9::real] 9 = 2
           \<and> (\<forall>w\<in>set [1, 2, 3, 4, 5, 6, 7, 8, 9, 9::real]. w \<noteq> 9
                \<longrightarrow> count_list [1, 2, 3, 4, 5, 6, 7, 8, 9, 9] w = 1)"
    by simp
  have d: "distinct [3, 1, 2::real]" by simp
  have "get_tie_correction [1, 2, 3, 4, 5, 6, 7, 8, 9, 9] 10 = Inr ((2 ^ 3 - 2) / (12 * 9))"
    using get_tie_correction_formula [OF n, of "[1, 2, 3, 4, 5, 6, 7, 8, 9, 9]" 9] p by blast
  moreover have "(3::int) \<noteq> 1" by simp
  from get_tie_correction_formula [OF this, of "[3, 1, 2]"] d
  have "get_tie_correction [3, 1, 2] 3 = Inr 0" by blast
  ultimately show ?thesis using n d by blast
qed

text \<open>
  The claim as stated fails for a single session: the one value is distinct from all
  others, and the helper raises ZeroDivisionError instead of returning 0.
\<close>

theorem get_tie_correction_single_counterexample:
  "distinct [5::real] \<and> length [5::real] = 1
   \<and> get_tie_correction [5] 1 = Inl ZeroDivisionError
   \<and> get_tie_correction [5] 1 \<noteq> Inr 0"
  by (simp add: get_tie_correction_def value_counts_def)

subsection \<open>Ranks and the tie factor of scipy\<close>









subsection \<open>The manual statistic\<close>

lemma kw_statistics_Inr:
  assumes "kw_statistics d m num_groups npg cum n_perm = Inr (h_all, rr, xt)"
  shows "apply_along_axis0 rankdata m = Inr rr"
    and "sequence (map (\<lambda>s. get_tie_correction (column m s) (int (n_rows m))) [0..<n_cols m]) = Inr xt"
    and "h_all = map (h_row (n_rows m) (n_cols m) rr cum npg num_groups
                        (map (\<lambda>s. tiecorrect (column rr s)) [0..<n_cols m]))
                     (perm_of d n_perm (n_rows m))"
    and "0 < n_cols m"
  using assms
  by (auto simp: kw_statistics_def Let_def apply_along_axis0_def split: sum.splits if_splits)









subsection \<open>The instance with six sessions\<close>

lemma cumsum_Nil: "cumsum [] = []"
  by (simp add: cumsum_def)

lemma cumsum_Cons: "cumsum (n # ns) = n # map (\<lambda>c. n + c) (cumsum ns)"
proof -
  have "[0..<length (n # ns)] = 0 # map Suc [0..<length ns]"
    by (simp add: upt_conv_Cons map_Suc_upt del: upt_Suc)
  then show ?thesis by (simp add: cumsum_def comp_def del: upt_Suc)
qed

lemma ex_perm: "perm_of ex_d (Suc 0) 6 = [[3, 0, 5, 2, 4, Suc 0]]"
  by (simp add: ex_d_def perm_of_def rand_def argsort_def sample_stream_def upt_rec)

lemma ex_ranks: "apply_along_axis0 rankdata ex_m = Inr [[3 / 2], [3 / 2], [3], [4], [5], [6]]"
  by (simp add: ex_m_def apply_along_axis0_def n_cols_def n_rows_def column_def rankdata_def rank_of_def upt_rec)

lemma ex_tie: "get_tie_correction [1, 1, 2, 3, 4, 5] 6 = Inr (1 / 10)"
  by (simp add: get_tie_correction_def value_counts_def)

lemma ex_tiecorrect: "tiecorrect [3 / 2, 3 / 2, 3, 4, 5, 6] = 34 / 35"
  by (simp add: tiecorrect_def value_counts_def)

lemma ex_h_row:
  "h_row 6 (Suc 0) [[3 / 2], [3 / 2], [3], [4], [5], [6]] [0, 2, 4, 6] [2, 2, 2] 3 [34 / 35]
     [3, 0, 5, 2, 4, Suc 0] = [65 / 68]"
  apply (simp add: h_row_def numeral_3_eq_3 Let_def)
  apply (simp add: group_term_def slice_def column_def power2_eq_square)
  done

lemma ex_dims: "n_rows ex_m = 6" "n_cols ex_m = Suc 0" "column ex_m 0 = [1, 1, 2, 3, 4, 5]"
  "column [[3 / 2], [3 / 2], [3], [4], [5], [6]] 0 = [3 / 2, 3 / 2, 3, 4, 5, 6]"
  by (simp_all add: ex_m_def n_rows_def n_cols_def column_def)

lemma ex_kw_statistics:
  "kw_statistics ex_d ex_m 3 [2, 2, 2] [0, 2, 4, 6] (Suc 0)
   = Inr ([[65 / 68]], [[3 / 2], [3 / 2], [3], [4], [5], [6]], [1 / 10])"
  by (simp add: kw_statistics_def ex_dims ex_perm ex_ranks ex_tie ex_tiecorrect ex_h_row)

lemma ex_kruskal: "kruskal sf [[3, 1], [5, 2], [4, 1]] = Inr (Some (65 / 68, sf (65 / 68) 2))"
proof -
  have r: "rankdata [3, 1, 5, 2, 4, 1] = [4, 3 / 2, 6, 3, 5, 3 / 2]"
    by (simp add: rankdata_def rank_of_def)
  have t: "tiecorrect [4, 3 / 2, 6, 3, 5, 3 / 2] = 34 / 35"
    by (simp add: tiecorrect_def value_counts_def)
  show ?thesis
    apply (simp add: kruskal_def r t cumsum_Cons cumsum_Nil Let_def)
    apply (simp add: slice_def upt_rec power2_eq_square)
    done
qed

lemma ex_spot_check:
  "spot_check sf ex_d ex_m [2, 2, 2] (Suc 0) = Inr (0, 0, Some (65 / 68, sf (65 / 68) 2))"
proof -
  have g: "global_p ex_d = 0" "global_s ex_d = 0" by (simp_all add: ex_d_def)
  show ?thesis
    apply (simp add: spot_check_def ex_dims ex_perm randint_def g)
    apply (simp add: ex_m_def array_split_def cumsum_Cons cumsum_Nil slice_def ex_kruskal)
    done
qed


subsection \<open>The H-statistic and the spot check\<close>




lemma spot_check_range:
  assumes "spot_check sf d m npg n_perm = Inr (p_i, s_i, kr)"
  shows "p_i < n_perm \<and> s_i < n_cols m"
  using assms
  by (auto simp: spot_check_def Let_def randint_def split: sum.splits if_splits)

lemma kw_statistics_shape:
  assumes "kw_statistics d m num_groups npg cum n_perm = Inr (h_all, rr, xt)"
    and "p < n_perm"
  shows "length h_all = n_perm" and "length (h_all ! p) = n_cols m"
proof -
  have lp: "length (perm_of d n_perm (n_rows m)) = n_perm"
    by (simp add: perm_of_def rand_def)
  show "length h_all = n_perm" by (simp add: kw_statistics_Inr(3) [OF assms(1)] lp)
  show "length (h_all ! p) = n_cols m"
    using assms(2) lp by (simp add: kw_statistics_Inr(3) [OF assms(1)] h_row_def Let_def)
qed

text \<open>
  C2. \<open>run_manual_KW_test\<close> raises AssertionError if and only if, for the one drawn
  pair \<open>(p_i, s_i)\<close>, the statistic or the p-value of \<open>scipy.stats.kruskal\<close> differs
  from the manual statistic \<open>h_all[p_i, s_i]\<close> or its chi-square p-value; when they
  agree it returns normally. The statement is for the runs in which the statistics are
  computed and the reference test returns a result (it raises ValueError for fewer
  than two groups and for a syllable whose values are all identical).
\<close>

theorem run_manual_KW_test_assertion:
  assumes "kw_statistics d m num_groups n_per_group cum_group_idx n_perm
             = Inr (h_all, real_ranks, X_ties)"
    and "spot_check sf d m n_per_group n_perm = Inr (p_i, s_i, kr)"
  shows "(run_manual_KW_test sf d m num_groups n_per_group cum_group_idx n_perm
            = Inl AssertionError
          \<longleftrightarrow> kr \<noteq> Some (h_all ! p_i ! s_i, sf (h_all ! p_i ! s_i) (int num_groups - 1)))
         \<and> (kr = Some (h_all ! p_i ! s_i, sf (h_all ! p_i ! s_i) (int num_groups - 1))
            \<longrightarrow> run_manual_KW_test sf d m num_groups n_per_group cum_group_idx n_perm
                  = Inr (h_all, real_ranks, X_ties))
         \<and> p_i < n_perm \<and> s_i < n_cols m"
proof -
  from spot_check_range [OF assms(2)] have r: "p_i < n_perm" "s_i < n_cols m" by simp_all
  from kw_statistics_shape [OF assms(1) r(1)] r
  have pv: "map (map (\<lambda>h. sf h (int num_groups - 1))) h_all ! p_i ! s_i
            = sf (h_all ! p_i ! s_i) (int num_groups - 1)"
    by simp
  show ?thesis
  proof (cases kr)
    case None
    then show ?thesis using r by (simp add: run_manual_KW_test_def assms)
  next
    case (Some a)
    obtain st pvalue where a: "a = (st, pvalue)" by (cases a)
    show ?thesis using r pv by (auto simp: run_manual_KW_test_def assms Some a Let_def)
  qed
qed

lemma ex_h_row_shifted:
  "h_row 6 (Suc 0) [[3 / 2], [3 / 2], [3], [4], [5], [6]] [0, Suc 0, 4, 6] [2, 2, 2] 3 [34 / 35]
     [3, 0, 5, 2, 4, Suc 0] = [215 / 68]"
  apply (simp add: h_row_def numeral_3_eq_3 Let_def)
  apply (simp add: group_term_def slice_def column_def power2_eq_square)
  done

lemma ex_kw_statistics_shifted:
  "kw_statistics ex_d ex_m 3 [2, 2, 2] [0, Suc 0, 4, 6] (Suc 0)
   = Inr ([[215 / 68]], [[3 / 2], [3 / 2], [3], [4], [5], [6]], [1 / 10])"
  by (simp add: kw_statistics_def ex_dims ex_perm ex_ranks ex_tie ex_tiecorrect ex_h_row_shifted)

theorem run_manual_KW_test_assertion_witness:
  "kw_statistics ex_d ex_m 3 [2, 2, 2] [0, 2, 4, 6] 1
     = Inr ([[65 / 68]], [[3 / 2], [3 / 2], [3], [4], [5], [6]], [1 / 10])
   \<and> spot_check chi2_sf_even ex_d ex_m [2, 2, 2] 1
       = Inr (0, 0, Some (65 / 68, chi2_sf_even (65 / 68) 2))
   \<and> run_manual_KW_test chi2_sf_even ex_d ex_m 3 [2, 2, 2] [0, 2, 4, 6] 1
       = Inr ([[65 / 68]], [[3 / 2], [3 / 2], [3], [4], [5], [6]], [1 / 10])
   \<and> kw_statistics ex_d ex_m 3 [2, 2, 2] [0, 1, 4, 6] 1
       = Inr ([[215 / 68]], [[3 / 2], [3 / 2], [3], [4], [5], [6]], [1 / 10])
   \<and> run_manual_KW_test chi2_sf_even ex_d ex_m 3 [2, 2, 2] [0, 1, 4, 6] 1
       = Inl AssertionError"
proof -
  have k: "kw_statistics ex_d ex_m 3 [2, 2, 2] [0, 2, 4, 6] 1
     = Inr ([[65 / 68]], [[3 / 2], [3 / 2], [3], [4], [5], [6]], [1 / 10])"
    by (simp add: ex_kw_statistics)
  have k': "kw_statistics ex_d ex_m 3 [2, 2, 2] [0, 1, 4, 6] 1
     = Inr ([[215 / 68]], [[3 / 2], [3 / 2], [3], [4], [5], [6]], [1 / 10])"
    by (simp add: ex_kw_statistics_shifted)
  have c: "spot_check chi2_sf_even ex_d ex_m [2, 2, 2] 1
       = Inr (0, 0, Some (65 / 68, chi2_sf_even (65 / 68) 2))"
    by (simp add: ex_spot_check)
  have "run_manual_KW_test chi2_sf_even ex_d ex_m 3 [2, 2, 2] [0, 2, 4, 6] 1
       = Inr ([[65 / 68]], [[3 / 2], [3 / 2], [3], [4], [5], [6]], [1 / 10])"
    using run_manual_KW_test_assertion [OF k c] by simp
  moreover have "run_manual_KW_test chi2_sf_even ex_d ex_m 3 [2, 2, 2] [0, 1, 4, 6] 1
       = Inl AssertionError"
    using run_manual_KW_test_assertion [OF k' c] by simp
  ultimately show ?thesis using k k' c by blast
qed

subsection \<open>Fewer than two groups\<close>

lemma sequence_Inl: "sequence rs = Inl e \<Longrightarrow> Inl e \<in> set rs"
  by (induction rs rule: sequence.induct) (auto split: sum.splits)

lemma kruskal_single: "length samples < 2 \<Longrightarrow> kruskal sf samples = Inl ValueError"
  by (simp add: kruskal_def)

lemma array_split_one:
  assumes "length n_per_group < 2"
  shows "length (array_split a (cumsum (butlast n_per_group))) < 2"
proof -
  from assms have "butlast n_per_group = []"
    by (cases n_per_group) (auto split: if_splits)
  then show ?thesis by (simp add: array_split_def cumsum_def)
qed

lemma spot_check_few_groups:
  assumes "length n_per_group < 2"
  shows "spot_check sf d m n_per_group n_perm = Inl ValueError"
  using kruskal_single [OF array_split_one [OF assms]]
  by (simp add: spot_check_def Let_def randint_def)

lemma get_tie_correction_error:
  "get_tie_correction x N = Inl e \<Longrightarrow> e = ZeroDivisionError"
  by (auto simp: get_tie_correction_def Let_def split: if_splits)

lemma kw_statistics_error:
  assumes "kw_statistics d m num_groups npg cum n_perm = Inl e"
    and "num_groups + 1 \<le> length cum" and "num_groups \<le> length npg"
  shows "e = ValueError \<or> e = ZeroDivisionError"
proof (cases "apply_along_axis0 rankdata m")
  case (Inl a)
  then have "a = ValueError" by (simp add: apply_along_axis0_def split: if_splits)
  with Inl assms(1) show ?thesis by (simp add: kw_statistics_def Let_def)
next
  case (Inr rr)
  show ?thesis
  proof (cases "sequence (map (\<lambda>s. get_tie_correction (column m s) (int (n_rows m))) [0..<n_cols m])")
    case (Inl a)
    from sequence_Inl [OF Inl] have "a = ZeroDivisionError"
      by (auto dest: get_tie_correction_error [OF sym])
    with Inl Inr assms(1) show ?thesis by (simp add: kw_statistics_def Let_def)
  next
    case (Inr xt)
    with \<open>apply_along_axis0 rankdata m = Inr rr\<close> assms show ?thesis
      by (simp add: kw_statistics_def Let_def)
  qed
qed

lemma run_manual_KW_test_few_groups:
  assumes "length npg < 2" and "num_groups + 1 \<le> length cum" and "num_groups \<le> length npg"
  shows "run_manual_KW_test sf d m num_groups npg cum n_perm = Inl ValueError
         \<or> run_manual_KW_test sf d m num_groups npg cum n_perm = Inl ZeroDivisionError"
proof (cases "kw_statistics d m num_groups npg cum n_perm")
  case (Inl e)
  from kw_statistics_error [OF Inl assms(2,3)] Inl show ?thesis
    by (auto simp: run_manual_KW_test_def)
next
  case (Inr r)
  obtain h rr xt where "r = (h, rr, xt)" by (cases r)
  with Inr spot_check_few_groups [OF assms(1)] show ?thesis
    by (simp add: run_manual_KW_test_def Let_def)
qed

lemma length_cumsum: "length (cumsum ns) = length ns"
  by (simp add: cumsum_def)

text \<open>
  C8 (amended). When the input table contains fewer than 2 groups, \<open>run_kruskal\<close>
  raises: ValueError, from the reference test of the spot check in
  \<open>run_manual_KW_test\<close> or from an empty table, or ZeroDivisionError for a table with a
  single session. It never returns a result.
\<close>

theorem run_kruskal_few_groups:
  assumes "length (unique (map fst grouped_data)) < 2"
  shows "run_kruskal sf mc d grouped_data n_perm thresh = Inl ValueError
         \<or> run_kruskal sf mc d grouped_data n_perm thresh = Inl ZeroDivisionError"
proof -
  let ?names = "unique (map fst grouped_data)"
  let ?npg = "map (count_list (map fst grouped_data)) ?names"
  have "run_manual_KW_test sf d (map snd grouped_data) (length ?names) ?npg (0 # cumsum ?npg) n_perm
          = Inl ValueError
        \<or> run_manual_KW_test sf d (map snd grouped_data) (length ?names) ?npg (0 # cumsum ?npg) n_perm
          = Inl ZeroDivisionError"
    using assms by (intro run_manual_KW_test_few_groups) (simp_all add: length_cumsum)
  then show ?thesis by (auto simp: run_kruskal_def Let_def)
qed

lemma one_group_names: "unique (map fst one_group) = [''ctrl'']"
  by (simp add: one_group_def unique_def)

lemma one_group_statistics:
  "\<exists>r. kw_statistics ex_d [[1, 5], [2, 6]] (Suc 0) [2] [0, 2] 2 = Inr r"
proof -
  have a: "\<exists>rr. apply_along_axis0 rankdata [[1, 5], [2, 6]] = Inr rr"
    by (simp add: apply_along_axis0_def n_cols_def)
  have n: "n_rows [[1, 5], [2, 6]] = 2" "n_cols [[1, 5], [2, 6]] = 2"
    by (simp_all add: n_rows_def n_cols_def)
  have t: "sequence (map (\<lambda>s. get_tie_correction (column [[1, 5], [2, 6]] s) 2) [0..<2])
           = Inr [0, 0]"
    by (simp add: column_def get_tie_correction_def value_counts_def upt_rec numeral_2_eq_2)
  from a obtain rr where "apply_along_axis0 rankdata [[1, 5], [2, 6]] = Inr rr" ..
  then show ?thesis using t by (simp add: kw_statistics_def n Let_def)
qed

text \<open>
  The claim as stated fails on the table with the single group \<open>ctrl\<close>: the call
  raises ValueError and returns no result, empty or not.
\<close>

theorem run_kruskal_one_group_counterexample:
  "length (unique (map fst one_group)) = 1
   \<and> run_kruskal chi2_sf_even fdr_bh ex_d one_group 2 (1 / 20) = Inl ValueError"
proof -
  from one_group_statistics obtain r
    where k: "kw_statistics ex_d [[1, 5], [2, 6]] (Suc 0) [2] [0, 2] 2 = Inr r" ..
  obtain h rr xt where r: "r = (h, rr, xt)" by (cases r)
  have s: "spot_check chi2_sf_even ex_d [[1, 5], [2, 6]] [2] 2 = Inl ValueError"
    by (rule spot_check_few_groups) simp
  have "run_manual_KW_test chi2_sf_even ex_d [[1, 5], [2, 6]] (Suc 0) [2] [0, 2] 2 = Inl ValueError"
    by (simp add: run_manual_KW_test_def k r s)
  moreover have "map snd one_group = [[1, 5], [2, 6]]"
    by (simp add: one_group_def)
  moreover have "count_list (map fst one_group) ''ctrl'' = 2"
    by (simp add: one_group_def)
  ultimately show ?thesis
    unfolding run_kruskal_def Let_def one_group_names
    by (simp add: cumsum_Cons cumsum_Nil)
qed

theorem run_kruskal_few_groups_witness:
  "length (unique (map fst one_group)) < 2
   \<and> (run_kruskal chi2_sf_even fdr_bh ex_d one_group 2 (1 / 20) = Inl ValueError
      \<or> run_kruskal chi2_sf_even fdr_bh ex_d one_group 2 (1 / 20) = Inl ZeroDivisionError)"
proof -
  have l: "length (unique (map fst one_group)) < 2" by (simp add: one_group_names)
  from run_kruskal_few_groups [OF l] l show ?thesis by blast
qed

subsection \<open>Dictionaries and pairs\<close>

lemma dict_set_keys: "set (map fst (dict_set d k v)) = insert k (set (map fst d))"
  by (induction d k v rule: dict_set.induct) auto

lemma dict_set_distinct: "distinct (map fst d) \<Longrightarrow> distinct (map fst (dict_set d k v))"
proof (induction d k v rule: dict_set.induct)
  case (1 k v)
  then show ?case by simp
next
  case (2 k' v' d k v)
  then show ?case using dict_set_keys [of d k v] by auto
qed

lemma dict_set_items: "(k', v') \<in> set (dict_set d k v) \<Longrightarrow> (k', v') = (k, v) \<or> (k', v') \<in> set d"
  by (induction d k v rule: dict_set.induct) (auto split: if_splits)


lemma combinations2_members:
  "(a, b) \<in> set (combinations2 xs) \<Longrightarrow> a \<in> set xs \<and> b \<in> set xs"
  by (induction xs) auto

lemma combinations2_oriented:
  "distinct xs \<Longrightarrow> (a, b) \<in> set (combinations2 xs)
     \<Longrightarrow> a \<noteq> b \<and> (b, a) \<notin> set (combinations2 xs)"
proof (induction xs)
  case Nil
  then show ?case by simp
next
  case (Cons x xs)
  from Cons.prems(2) consider "a = x" "b \<in> set xs" | "(a, b) \<in> set (combinations2 xs)"
    by auto
  then show ?case
  proof cases
    case 1
    with Cons.prems(1) show ?thesis by (auto dest: combinations2_members)
  next
    case 2
    from combinations2_members [OF 2] Cons.prems(1) have "a \<noteq> x" "b \<noteq> x" by auto
    with Cons.IH 2 Cons.prems(1) show ?thesis by auto
  qed
qed

lemma combinations2_complete:
  "a \<in> set xs \<Longrightarrow> b \<in> set xs \<Longrightarrow> a \<noteq> b
     \<Longrightarrow> (a, b) \<in> set (combinations2 xs) \<or> (b, a) \<in> set (combinations2 xs)"
  by (induction xs) auto

lemma unique_props: "distinct (unique xs)" "set (unique xs) = set xs"
  by (simp_all add: unique_def)

subsection \<open>The keys of the report\<close>

lemma intersect_loop_keys:
  "intersect_loop df thresh sig keys acc = Inr r
     \<Longrightarrow> set (map fst r) = set (map fst acc) \<union> set keys"
proof (induction keys arbitrary: acc)
  case Nil
  then show ?case by simp
next
  case (Cons pair keys)
  from Cons.prems obtain v where
    "intersect_loop df thresh sig keys (dict_set acc pair v) = Inr r"
    by (auto split: sum.splits)
  from Cons.IH [OF this] show ?case using dict_set_keys [of acc pair v] by auto
qed

lemma intersect_loop_distinct:
  "intersect_loop df thresh sig keys acc = Inr r \<Longrightarrow> distinct (map fst acc)
     \<Longrightarrow> distinct (map fst r)"
proof (induction keys arbitrary: acc)
  case Nil
  then show ?case by simp
next
  case (Cons pair keys)
  from Cons.prems(1) obtain v where
    v: "intersect_loop df thresh sig keys (dict_set acc pair v) = Inr r"
    by (auto split: sum.splits)
  show ?case by (rule Cons.IH [OF v]) (rule dict_set_distinct [OF Cons.prems(2)])
qed

lemma all_sig_dict_set:
  assumes "all_sig sig d" and "\<forall>s\<in>set v. s < length sig \<and> sig ! s"
  shows "all_sig sig (dict_set d k v)"
  unfolding all_sig_def
proof (rule ballI)
  fix x assume x: "x \<in> set (dict_set d k v)"
  obtain k' v' where kv: "x = (k', v')" by (cases x)
  from dict_set_items [of k' v' d k v] x kv have "(k', v') = (k, v) \<or> (k', v') \<in> set d" by simp
  then show "case x of (k, v) \<Rightarrow> \<forall>s\<in>set v. s < length sig \<and> sig ! s"
  proof
    assume "(k', v') = (k, v)"
    with assms(2) kv show ?thesis by simp
  next
    assume "(k', v') \<in> set d"
    with assms(1) kv show ?thesis unfolding all_sig_def by blast
  qed
qed

lemma intersect_loop_sig:
  "intersect_loop df thresh sig keys acc = Inr r \<Longrightarrow> all_sig sig acc \<Longrightarrow> all_sig sig r"
proof (induction keys arbitrary: acc)
  case Nil
  then show ?case by simp
next
  case (Cons pair keys)
  from Cons.prems(1) obtain c where
    v: "intersect_loop df thresh sig keys
          (dict_set acc pair (filter (\<lambda>s. c ! s < thresh \<and> sig ! s) [0..<length sig])) = Inr r"
    by (auto split: sum.splits)
  have "\<forall>s\<in>set (filter (\<lambda>s. c ! s < thresh \<and> sig ! s) [0..<length sig]). s < length sig \<and> sig ! s"
    by simp
  from Cons.IH [OF v all_sig_dict_set [OF Cons.prems(2) this]] show ?case .
qed

lemma p_vals_loop_keys:
  "p_vals_loop real_zs null_zs n_perm pairs acc = Inr r
     \<Longrightarrow> set (map fst r) = set (map fst acc) \<union> set pairs"
proof (induction pairs arbitrary: acc)
  case Nil
  then show ?case by simp
next
  case (Cons pair pairs)
  from Cons.prems obtain v where
    "p_vals_loop real_zs null_zs n_perm pairs (dict_set acc pair v) = Inr r"
    by (auto split: sum.splits)
  from Cons.IH [OF this] show ?case using dict_set_keys [of acc pair v] by auto
qed

lemma correct_rows_keys:
  assumes "correct_rows mc thresh df = Inr r"
  shows "map fst r = map fst df"
proof -
  from assms have "map fst r = map (\<lambda>i. fst (df ! i)) [0..<length df]"
    unfolding correct_rows_def Let_def by (auto split: if_splits simp: comp_def)
  also have "\<dots> = map fst df" by (rule nth_equalityI) simp_all
  finally show ?thesis .
qed

lemma compute_pvalues_keys:
  assumes "compute_pvalues_for_group_pairs mc real_zs null_zs sig group_names n_perm thresh
             = Inr (df, counts)"
  shows "set (map fst df) = set (combinations2 group_names)"
proof -
  from assms obtain df_pval where
    p: "p_vals_loop real_zs null_zs n_perm (combinations2 group_names) [] = Inr df_pval"
    and c: "correct_rows mc thresh df_pval = Inr df"
    by (auto simp: compute_pvalues_for_group_pairs_def split: sum.splits)
  from p_vals_loop_keys [OF p] correct_rows_keys [OF c] show ?thesis by simp
qed

subsection \<open>The report of the significant syllables\<close>

lemma pair_report_Inr:
  assumes "pair_report mc group_col vc rr xt N_m group_names rnd n_perm thresh sig = Inr (dunn, isect)"
  shows "\<exists>df counts null_zs real_zs.
           compute_pvalues_for_group_pairs mc real_zs null_zs sig group_names n_perm thresh
             = Inr (df, counts)
           \<and> intersect_loop df thresh sig (map fst df) [] = Inr isect"
  using assms unfolding pair_report_def
  by (auto split: sum.splits prod.splits)

lemma run_kruskal_Inr:
  assumes "run_kruskal sf mc d grouped_data n_perm thresh = Inr (df_k_real, dunn, isect)"
  shows "\<exists>vc rr xt N_m.
           pair_report mc (map fst grouped_data) vc rr xt N_m (unique (map fst grouped_data))
             (stream d) n_perm thresh (is_sig df_k_real) = Inr (dunn, isect)"
  using assms unfolding run_kruskal_def Let_def
  by (auto split: sum.splits prod.splits)

text \<open>
  C6. In the result of \<open>run_kruskal\<close>, for every group pair, every syllable reported
  significant for that pair is also flagged significant by the omnibus Kruskal-Wallis
  test, and each unordered pair of group names appears exactly once as a key: the keys
  are distinct, no key has its reversed pair as a key, and of two different groups of
  the table one of the two orders is a key.
\<close>

theorem run_kruskal_pairs:
  assumes "run_kruskal sf mc d grouped_data n_perm thresh
             = Inr (df_k_real, dunn_results_df, intersect_sig_syllables)"
  shows "(\<forall>(pair, sylls)\<in>set intersect_sig_syllables.
            \<forall>s\<in>set sylls. s < length (is_sig df_k_real) \<and> is_sig df_k_real ! s)
         \<and> distinct (map fst intersect_sig_syllables)
         \<and> (\<forall>a b. (a, b) \<in> set (map fst intersect_sig_syllables)
                \<longrightarrow> a \<noteq> b \<and> (b, a) \<notin> set (map fst intersect_sig_syllables))
         \<and> (\<forall>a b. a \<in> set (map fst grouped_data) \<and> b \<in> set (map fst grouped_data) \<and> a \<noteq> b
                \<longrightarrow> (a, b) \<in> set (map fst intersect_sig_syllables)
                    \<or> (b, a) \<in> set (map fst intersect_sig_syllables))"
proof -
  let ?names = "unique (map fst grouped_data)"
  let ?sig = "is_sig df_k_real"
  from run_kruskal_Inr [OF assms] obtain vc rr xt N_m where
    "pair_report mc (map fst grouped_data) vc rr xt N_m ?names (stream d) n_perm thresh ?sig
       = Inr (dunn_results_df, intersect_sig_syllables)"
    by blast
  from pair_report_Inr [OF this] obtain df counts null_zs real_zs where
    c: "compute_pvalues_for_group_pairs mc real_zs null_zs ?sig ?names n_perm thresh = Inr (df, counts)"
    and i: "intersect_loop df thresh ?sig (map fst df) [] = Inr intersect_sig_syllables"
    by blast
  have keys: "set (map fst intersect_sig_syllables) = set (combinations2 ?names)"
    using intersect_loop_keys [OF i] compute_pvalues_keys [OF c] by simp
  have "all_sig ?sig intersect_sig_syllables"
    by (rule intersect_loop_sig [OF i]) (simp add: all_sig_def)
  then have 1: "\<forall>(pair, sylls)\<in>set intersect_sig_syllables.
            \<forall>s\<in>set sylls. s < length ?sig \<and> ?sig ! s"
    by (simp add: all_sig_def)
  have 2: "distinct (map fst intersect_sig_syllables)"
    by (rule intersect_loop_distinct [OF i]) simp
  have 3: "\<forall>a b. (a, b) \<in> set (map fst intersect_sig_syllables)
                \<longrightarrow> a \<noteq> b \<and> (b, a) \<notin> set (map fst intersect_sig_syllables)"
  proof (intro allI impI)
    fix a b assume "(a, b) \<in> set (map fst intersect_sig_syllables)"
    then have "(a, b) \<in> set (combinations2 ?names)" unfolding keys .
    from combinations2_oriented [OF unique_props(1) this]
    show "a \<noteq> b \<and> (b, a) \<notin> set (map fst intersect_sig_syllables)" unfolding keys .
  qed
  have 4: "\<forall>a b. a \<in> set (map fst grouped_data) \<and> b \<in> set (map fst grouped_data) \<and> a \<noteq> b
                \<longrightarrow> (a, b) \<in> set (map fst intersect_sig_syllables)
                    \<or> (b, a) \<in> set (map fst intersect_sig_syllables)"
  proof (intro allI impI)
    fix a b
    assume "a \<in> set (map fst grouped_data) \<and> b \<in> set (map fst grouped_data) \<and> a \<noteq> b"
    then have "a \<in> set ?names" "b \<in> set ?names" "a \<noteq> b" by (simp_all add: unique_props(2))
    from combinations2_complete [OF this]
    show "(a, b) \<in> set (map fst intersect_sig_syllables)
            \<or> (b, a) \<in> set (map fst intersect_sig_syllables)" unfolding keys .
  qed
  show ?thesis by (intro conjI) (rule 1, rule 2, rule 3, rule 4)
qed

subsection \<open>A table with three groups\<close>

lemma tg_perm: "perm_of ex_d 2 3 = [[0, 2, Suc 0], [0, 2, Suc 0]]"
  by (simp add: ex_d_def perm_of_def rand_def argsort_def sample_stream_def upt_rec)

lemma tg_ranks: "apply_along_axis0 rankdata [[1], [2], [3]] = Inr [[1], [2], [3]]"
  by (simp add: apply_along_axis0_def n_cols_def n_rows_def column_def rankdata_def rank_of_def upt_rec)

lemma tg_tie: "get_tie_correction [1, 2, 3] 3 = Inr 0"
  by (simp add: get_tie_correction_def value_counts_def)

lemma tg_tiecorrect: "tiecorrect [1, 2, 3] = 1"
  by (simp add: tiecorrect_def value_counts_def)

lemma tg_h_row:
  "h_row 3 (Suc 0) [[1], [2], [3]] [0, Suc 0, 2, 3] [Suc 0, Suc 0, Suc 0] 3 [1]
     [0, 2, Suc 0] = [2]"
  apply (simp add: h_row_def numeral_3_eq_3 Let_def)
  apply (simp add: group_term_def slice_def column_def power2_eq_square numeral_2_eq_2)
  done

lemma tg_dims: "n_rows [[1], [2], [3]] = 3" "n_cols [[1], [2], [3]] = Suc 0"
  "column [[1], [2], [3]] 0 = [1, 2, 3]"
  by (simp_all add: n_rows_def n_cols_def column_def)

lemma tg_kw_statistics:
  "kw_statistics ex_d [[1], [2], [3]] 3 [Suc 0, Suc 0, Suc 0] [0, Suc 0, 2, 3] 2
   = Inr ([[2], [2]], [[1], [2], [3]], [0])"
  by (simp add: kw_statistics_def tg_dims tg_perm tg_ranks tg_tie tg_tiecorrect tg_h_row)

lemma tg_kruskal: "kruskal sf [[1], [3], [2]] = Inr (Some (2, sf 2 2))"
proof -
  have r: "rankdata [1, 3, 2] = [1, 3, 2]"
    by (simp add: rankdata_def rank_of_def)
  have t: "tiecorrect [1, 3, 2] = 1"
    by (simp add: tiecorrect_def value_counts_def)
  show ?thesis
    apply (simp add: kruskal_def r t cumsum_Cons cumsum_Nil Let_def)
    apply (simp add: slice_def upt_rec power2_eq_square)
    done
qed

lemma tg_kruskal_real: "kruskal sf [[1], [2], [3]] = Inr (Some (2, sf 2 2))"
proof -
  have r: "rankdata [1, 2, 3] = [1, 2, 3]"
    by (simp add: rankdata_def rank_of_def)
  show ?thesis
    apply (simp add: kruskal_def r tg_tiecorrect cumsum_Cons cumsum_Nil Let_def)
    apply (simp add: slice_def upt_rec power2_eq_square)
    done
qed

lemma tg_spot_check:
  "spot_check sf ex_d [[1], [2], [3]] [Suc 0, Suc 0, Suc 0] 2 = Inr (0, 0, Some (2, sf 2 2))"
proof -
  have g: "global_p ex_d = 0" "global_s ex_d = 0" by (simp_all add: ex_d_def)
  show ?thesis
    apply (simp add: spot_check_def tg_dims tg_perm randint_def g)
    apply (simp add: array_split_def cumsum_Cons cumsum_Nil slice_def tg_kruskal)
    done
qed

lemma tg_run:
  "run_manual_KW_test sf ex_d [[1], [2], [3]] 3 [Suc 0, Suc 0, Suc 0] [0, Suc 0, 2, 3] 2
   = Inr ([[2], [2]], [[1], [2], [3]], [0])"
  by (simp add: run_manual_KW_test_def tg_kw_statistics tg_spot_check)

lemma tg_omnibus:
  "omnibus_table sf fdr_bh [[1], [2], [3]] [Suc 0, Suc 0, Suc 0] [[2], [2]] 2 (3 / 4)
   = Inr \<lparr>kruskal_result = [Some (2, sf 2 2)], p_adj = [1 / 2], is_sig = [True]\<rparr>"
  apply (simp add: omnibus_table_def tg_dims cumsum_Cons cumsum_Nil array_split_def slice_def tg_kruskal_real)
  apply (simp add: gt_statistic_def fdr_bh_def argsort_def)
  done

lemma tg_names: "unique [''a'', ''b'', ''c''] = [''a'', ''b'', ''c'']"
  by (simp add: unique_def)

lemma tg_stream: "stream ex_d = sample_stream" by (simp add: ex_d_def)

lemma tg_pair_ab:
  "dunn_pair [''a'', ''b'', ''c''] [(''a'', Suc 0), (''b'', Suc 0), (''c'', Suc 0)] [[1], [2], [3]] [0] 3
     sample_stream 2 0 ''a'' ''b'' = Inr ([[1 / sqrt 2], [1 / sqrt 2]], [1 / sqrt 2], 4)"
  apply (simp add: dunn_pair_def Let_def tg_dims n_rows_def n_cols_def boolean_index_def dict_get_def)
  apply (simp add: rand_def argsort_def sample_stream_def upt_rec dunn_z_def mean_def column_def)
  done

lemma tg_pair_ac:
  "dunn_pair [''a'', ''b'', ''c''] [(''a'', Suc 0), (''b'', Suc 0), (''c'', Suc 0)] [[1], [2], [3]] [0] 3
     sample_stream 2 4 ''a'' ''c'' = Inr ([[2 / sqrt 2], [2 / sqrt 2]], [2 / sqrt 2], 8)"
  apply (simp add: dunn_pair_def Let_def tg_dims n_rows_def n_cols_def boolean_index_def dict_get_def)
  apply (simp add: rand_def argsort_def sample_stream_def upt_rec dunn_z_def mean_def column_def)
  done

lemma tg_pair_bc:
  "dunn_pair [''a'', ''b'', ''c''] [(''a'', Suc 0), (''b'', Suc 0), (''c'', Suc 0)] [[1], [2], [3]] [0] 3
     sample_stream 2 8 ''b'' ''c'' = Inr ([[1 / sqrt 2], [1 / sqrt 2]], [1 / sqrt 2], 12)"
  apply (simp add: dunn_pair_def Let_def tg_dims n_rows_def n_cols_def boolean_index_def dict_get_def)
  apply (simp add: rand_def argsort_def sample_stream_def upt_rec dunn_z_def mean_def column_def)
  done

lemma tg_dunn:
  "dunns_z_test_permute_within_group_pairs [''a'', ''b'', ''c'']
     [(''a'', Suc 0), (''b'', Suc 0), (''c'', Suc 0)] [[1], [2], [3]] [0] 3 [''a'', ''b'', ''c'']
     sample_stream 2
   = Inr ([((''a'', ''b''), [[1 / sqrt 2], [1 / sqrt 2]]),
           ((''a'', ''c''), [[2 / sqrt 2], [2 / sqrt 2]]),
           ((''b'', ''c''), [[1 / sqrt 2], [1 / sqrt 2]])],
          [((''a'', ''b''), [1 / sqrt 2]), ((''a'', ''c''), [2 / sqrt 2]),
           ((''b'', ''c''), [1 / sqrt 2])])"
  by (simp add: dunns_z_test_permute_within_group_pairs_def tg_pair_ab tg_pair_ac tg_pair_bc)

lemma tg_fdr: "fdr_bh (3 / 4) [1 / 2, 1 / 2, 1 / 2] = [1 / 2, 1 / 2, 1 / 2]"
  by (simp add: fdr_bh_def argsort_def Let_def)

lemma tg_pvalues:
  "compute_pvalues_for_group_pairs fdr_bh
     [((''a'', ''b''), [1 / sqrt 2]), ((''a'', ''c''), [2 / sqrt 2]), ((''b'', ''c''), [1 / sqrt 2])]
     [((''a'', ''b''), [[1 / sqrt 2], [1 / sqrt 2]]),
      ((''a'', ''c''), [[2 / sqrt 2], [2 / sqrt 2]]),
      ((''b'', ''c''), [[1 / sqrt 2], [1 / sqrt 2]])]
     [True] [''a'', ''b'', ''c''] 2 (3 / 4)
   = Inr ([((''a'', ''b''), [1 / 2]), ((''a'', ''c''), [1 / 2]), ((''b'', ''c''), [1 / 2])],
          [((''a'', ''b''), Suc 0), ((''a'', ''c''), Suc 0), ((''b'', ''c''), Suc 0)])"
  apply (simp add: compute_pvalues_for_group_pairs_def dict_get_def)
  apply (simp add: correct_rows_def tg_fdr)
  done

lemma tg_pair_report:
  "pair_report fdr_bh [''a'', ''b'', ''c''] [(''a'', Suc 0), (''b'', Suc 0), (''c'', Suc 0)]
     [[1], [2], [3]] [0] 3 [''a'', ''b'', ''c''] sample_stream 2 (3 / 4) [True]
   = Inr ([(0, (''a'', ''b''), 1 / sqrt 2), (0, (''a'', ''c''), 2 / sqrt 2),
           (0, (''b'', ''c''), 1 / sqrt 2)],
          [((''a'', ''b''), [0]), ((''a'', ''c''), [0]), ((''b'', ''c''), [0])])"
  by (simp add: pair_report_def tg_dunn tg_pvalues dict_get_def)

lemma tg_run_kruskal:
  "run_kruskal sf fdr_bh ex_d three_groups 2 (3 / 4)
   = Inr (\<lparr>kruskal_result = [Some (2, sf 2 2)], p_adj = [1 / 2], is_sig = [True]\<rparr>,
          [(0, (''a'', ''b''), 1 / sqrt 2), (0, (''a'', ''c''), 2 / sqrt 2),
           (0, (''b'', ''c''), 1 / sqrt 2)],
          [((''a'', ''b''), [0]), ((''a'', ''c''), [0]), ((''b'', ''c''), [0])])"
proof -
  have g: "map fst three_groups = [''a'', ''b'', ''c'']"
    "map snd three_groups = [[1], [2], [3]]"
    by (simp_all add: three_groups_def)
  have c: "map (count_list [''a'', ''b'', ''c'']) [''a'', ''b'', ''c''] = [Suc 0, Suc 0, Suc 0]"
    by simp
  have cs: "0 # cumsum [Suc 0, Suc 0, Suc 0] = [0, Suc 0, 2, 3]"
    by (simp add: cumsum_Cons cumsum_Nil numeral_2_eq_2 numeral_3_eq_3)
  have l: "length [''a'', ''b'', ''c''] = 3"
    by simp
  show ?thesis
    unfolding run_kruskal_def Let_def g tg_names c cs l tg_dims tg_stream
    by (simp add: tg_run tg_omnibus tg_pair_report)
qed

theorem run_kruskal_pairs_witness:
  "run_kruskal chi2_sf_even fdr_bh ex_d three_groups 2 (3 / 4)
     = Inr (\<lparr>kruskal_result = [Some (2, chi2_sf_even 2 2)], p_adj = [1 / 2], is_sig = [True]\<rparr>,
            [(0, (''a'', ''b''), 1 / sqrt 2), (0, (''a'', ''c''), 2 / sqrt 2),
             (0, (''b'', ''c''), 1 / sqrt 2)],
            [((''a'', ''b''), [0]), ((''a'', ''c''), [0]), ((''b'', ''c''), [0])])
   \<and> distinct (map fst [((''a'', ''b''), [0::nat]), ((''a'', ''c''), [0]), ((''b'', ''c''), [0])])
   \<and> is_sig \<lparr>kruskal_result = [Some (2, chi2_sf_even 2 2)], p_adj = [1 / 2], is_sig = [True]\<rparr> ! 0"
proof -
  let ?k = "\<lparr>kruskal_result = [Some (2, chi2_sf_even 2 2)], p_adj = [1 / 2], is_sig = [True]\<rparr>"
  let ?z = "[(0::nat, (''a'', ''b''), 1 / sqrt 2), (0, (''a'', ''c''), 2 / sqrt 2),
             (0, (''b'', ''c''), 1 / sqrt 2)]"
  let ?i = "[((''a'', ''b''), [0::nat]), ((''a'', ''c''), [0]), ((''b'', ''c''), [0])]"
  have r: "run_kruskal chi2_sf_even fdr_bh ex_d three_groups 2 (3 / 4) = Inr (?k, ?z, ?i)"
    by (rule tg_run_kruskal)
  from run_kruskal_pairs [OF r]
  have "(\<forall>(pair, sylls)\<in>set ?i. \<forall>s\<in>set sylls. s < length (is_sig ?k) \<and> is_sig ?k ! s)"
    and "distinct (map fst ?i)"
    by blast+
  then show ?thesis using r by simp
qed

subsection \<open>Dunn's z-statistics\<close>














section \<open>Properties of the changepoint detector\<close>

lemma take_clip_first: "take_clip a (- 1) = take_clip a 0"
  by (simp add: take_clip_def)

lemma take_clip_last:
  assumes "i + 1 = length a"
  shows "take_clip a (int i + 1) = take_clip a (int i)"
proof -
  from assms have "int (length a) - 1 = int i" by simp
  then show ?thesis by (simp add: take_clip_def)
qed

lemma argrelextrema_greater_interior:
  assumes "i \<in> set (argrelextrema_greater score)"
  shows "0 < i \<and> i + 1 < length score"
proof -
  from assms have len: "i < length score"
    and r: "take_clip score (int i) > take_clip score (int i + 1)"
    and l: "take_clip score (int i) > take_clip score (int i - 1)"
    by (auto simp: argrelextrema_greater_def)
  have "i \<noteq> 0"
  proof
    assume "i = 0"
    with l show False by (simp add: take_clip_first)
  qed
  moreover have "i + 1 \<noteq> length score"
  proof
    assume "i + 1 = length score"
    from take_clip_last [OF this] r show False by simp
  qed
  ultimately show ?thesis using len by arith
qed

lemma argrelextrema_greater_short:
  assumes "length score < 3"
  shows "argrelextrema_greater score = []"
proof (rule ccontr)
  assume "argrelextrema_greater score \<noteq> []"
  then obtain i where "i \<in> set (argrelextrema_greater score)"
    by (cases "argrelextrema_greater score") auto
  from argrelextrema_greater_interior [OF this] assms show False by arith
qed

text \<open>
  C10. Every changepoint index that \<open>get_changepoints\<close> returns for a session is
  strictly interior, greater than 0 and less than the last frame index, because it is
  strictly greater than both neighbours; a session with fewer than 3 frames yields the
  empty changepoint set.
\<close>

theorem get_changepoints_interior:
  "(get_changepoints score pvals alpha = Inr pts \<and> i \<in> set pts
      \<longrightarrow> 0 < i \<and> i < length score - 1
          \<and> score ! i > score ! (i - 1) \<and> score ! i > score ! (i + 1))
   \<and> (length score < 3 \<longrightarrow> get_changepoints score pvals alpha = Inr [])"
proof (intro conjI impI)
  assume a: "get_changepoints score pvals alpha = Inr pts \<and> i \<in> set pts"
  then have mem: "i \<in> set (argrelextrema_greater score)"
    by (auto simp: get_changepoints_def Let_def split: if_splits)
  from argrelextrema_greater_interior [OF mem]
  have int: "0 < i" "i + 1 < length score" by simp_all
  then show "0 < i" and "i < length score - 1" by arith+
  from mem have r: "take_clip score (int i) > take_clip score (int i + 1)"
    and l: "take_clip score (int i) > take_clip score (int i - 1)"
    by (auto simp: argrelextrema_greater_def)
  have c0: "take_clip score (int i) = score ! i"
    using int by (simp add: take_clip_def min_def max_def)
  have c1: "take_clip score (int i + 1) = score ! (i + 1)"
    using int by (simp add: take_clip_def min_def max_def nat_add_distrib)
  have c2: "take_clip score (int i - 1) = score ! (i - 1)"
    using int by (simp add: take_clip_def min_def max_def nat_diff_distrib)
  from l c0 c2 show "score ! i > score ! (i - 1)" by simp
  from r c0 c1 show "score ! i > score ! (i + 1)" by simp
next
  assume "length score < 3"
  then show "get_changepoints score pvals alpha = Inr []"
    by (simp add: get_changepoints_def argrelextrema_greater_short)
qed

theorem get_changepoints_interior_witness:
  "get_changepoints [0, 2, 1, 3, 0] [1, 1/20, 1, 1/2, 1] (1/10) = Inr [1]
   \<and> (0::nat) < 1 \<and> (1::nat) < length [0, 2, 1, 3, 0::real] - 1
   \<and> length [5, 7::real] < 3 \<and> get_changepoints [5, 7] [1, 1] (1/10) = Inr []"
proof -
  have e: "get_changepoints [0, 2, 1, 3, 0] [1, 1/20, 1, 1/2, 1] (1/10) = Inr [1]"
    by (simp add: get_changepoints_def argrelextrema_greater_def take_clip_def upt_rec)
  have s: "length [5, 7::real] < 3" by simp
  from get_changepoints_interior [of "[0, 2, 1, 3, 0]" "[1, 1/20, 1, 1/2, 1]" "1/10" "[1]" 1] e
  have "(0::nat) < 1 \<and> (1::nat) < length [0, 2, 1, 3, 0::real] - 1" by simp
  moreover from get_changepoints_interior [of "[5, 7]" "[1, 1]" "1/10" "[]" 0] s
  have "get_changepoints [5, 7] [1, 1] (1/10) = Inr []" by blast
  ultimately show ?thesis using e s by blast
qed





end
